theory Spec2Isabelle
  imports Complex_Main
begin

section \<open>JavaScript values\<close>

text \<open>
  The analysis functions of the repository (the server's \<^verbatim>\<open>calculateColumnStatistics\<close> and
  \<^verbatim>\<open>calculateSummaryStats\<close>, and the client's \<^verbatim>\<open>chart-utils.ts\<close>) work on cells typed
  \<^verbatim>\<open>any\<close>. A cell of the model is undefined, null, a boolean, a number, a string or a
  \<^verbatim>\<open>Date\<close> object, or a member that a row inherits from \<^verbatim>\<open>Object.prototype\<close> (what
  \<^verbatim>\<open>row['constructor']\<close> or \<^verbatim>\<open>row['__proto__']\<close> reads when the row has no such key of its
  own: a function, or the prototype object).

  What the model leaves out of JavaScript:
  \<^item> a finite number is the real it denotes, and the arithmetic of the column statistics
    is exact: no rounding, no overflow, no negative zero; NaN and the two infinities are
    values of their own. Only the data quality of the summary, which ends in
    \<^verbatim>\<open>Math.round\<close>, is computed with the rounding of doubles; the comparisons of a
    count with 0.5 or 0.8 times another count, and of a quotient of counts with 0.8, come
    out in doubles as they do in the reals;
  \<^item> a string is a list of ASCII characters, and its length the number of them;
  \<^item> a row is an object whose prototype is \<^verbatim>\<open>Object.prototype\<close>, unmodified;
  \<^item> a \<open>limit\<close> is an integer;
  \<^item> \<^verbatim>\<open>Array.prototype.sort\<close> is stable (ECMAScript 2019).
\<close>

datatype jsnum = NaN | NegInf | Fin real | PosInf

text \<open>
  \<open>JDate i t\<close> is the \<^verbatim>\<open>Date\<close> object of identity \<open>i\<close> with the time value \<open>t\<close>
  (\<open>None\<close>: an invalid date); two \<^verbatim>\<open>Date\<close> objects are the same value only when they are
  the same object. \<open>JInherited k\<close> is the member of \<^verbatim>\<open>Object.prototype\<close> named \<open>k\<close>.
\<close>

datatype jsval =
  JUndefined | JNull | JBool bool | JNum jsnum | JStr string
| JDate nat "real option" | JInherited string

text \<open>The names of the members of \<^verbatim>\<open>Object.prototype\<close>.\<close>

definition proto_members :: "string list" where
  "proto_members =
     [''constructor'', ''__defineGetter__'', ''__defineSetter__'', ''hasOwnProperty'',
      ''__lookupGetter__'', ''__lookupSetter__'', ''isPrototypeOf'', ''propertyIsEnumerable'',
      ''toString'', ''valueOf'', ''__proto__'', ''toLocaleString'']"

text \<open>
  What the language leaves to the engine and its settings: the decimal rendering of a
  finite number (\<^verbatim>\<open>Number.prototype.toString\<close>), the text of a valid date (it depends on
  the time zone), the text of a native function after the word \<^verbatim>\<open>function\<close> with which
  the language makes it begin, and whether \<^verbatim>\<open>new Date(s)\<close> is a valid date for a string
  \<open>s\<close>. They are the parameter \<open>eng\<close> of every function that needs one of them.
\<close>

record engine =
  number_text :: "real \<Rightarrow> string"
  date_text :: "real \<Rightarrow> string"
  member_text :: "string \<Rightarrow> string"
  date_parses :: "string \<Rightarrow> bool"

subsection \<open>Arithmetic on numbers\<close>

fun isNaN_num :: "jsnum \<Rightarrow> bool" where
  "isNaN_num NaN = True"
| "isNaN_num _ = False"

fun jneg :: "jsnum \<Rightarrow> jsnum" where
  "jneg NaN = NaN"
| "jneg NegInf = PosInf"
| "jneg PosInf = NegInf"
| "jneg (Fin a) = Fin (- a)"

fun jadd :: "jsnum \<Rightarrow> jsnum \<Rightarrow> jsnum" where
  "jadd NaN _ = NaN"
| "jadd _ NaN = NaN"
| "jadd (Fin a) (Fin b) = Fin (a + b)"
| "jadd PosInf NegInf = NaN"
| "jadd NegInf PosInf = NaN"
| "jadd PosInf _ = PosInf"
| "jadd _ PosInf = PosInf"
| "jadd NegInf _ = NegInf"
| "jadd _ NegInf = NegInf"

definition jsub :: "jsnum \<Rightarrow> jsnum \<Rightarrow> jsnum" where
  "jsub a b = jadd a (jneg b)"

text \<open>The sign of a number other than NaN: \<open>-1\<close>, \<open>0\<close> or \<open>1\<close>.\<close>

fun jsign :: "jsnum \<Rightarrow> int" where
  "jsign NaN = 0"
| "jsign NegInf = - 1"
| "jsign PosInf = 1"
| "jsign (Fin a) = (if a < 0 then - 1 else if a = 0 then 0 else 1)"

definition signed_inf :: "int \<Rightarrow> jsnum" where
  "signed_inf s = (if s = 0 then NaN else if 0 < s then PosInf else NegInf)"

fun jmul :: "jsnum \<Rightarrow> jsnum \<Rightarrow> jsnum" where
  "jmul NaN _ = NaN"
| "jmul _ NaN = NaN"
| "jmul (Fin a) (Fin b) = Fin (a * b)"
| "jmul a b = signed_inf (jsign a * jsign b)"

fun jdiv :: "jsnum \<Rightarrow> jsnum \<Rightarrow> jsnum" where
  "jdiv NaN _ = NaN"
| "jdiv _ NaN = NaN"
| "jdiv (Fin a) (Fin b) = (if b = 0 then signed_inf (jsign (Fin a)) else Fin (a / b))"
| "jdiv (Fin a) _ = Fin 0"
| "jdiv a (Fin b) = signed_inf (jsign a * (if b < 0 then - 1 else 1))"
| "jdiv _ _ = NaN"

definition Math_pow2 :: "jsnum \<Rightarrow> jsnum" where
  \<comment> \<open>\<^verbatim>\<open>Math.pow(v, 2)\<close>\<close>
  "Math_pow2 a = jmul a a"

fun Math_sqrt :: "jsnum \<Rightarrow> jsnum" where
  "Math_sqrt (Fin a) = (if a < 0 then NaN else Fin (sqrt a))"
| "Math_sqrt PosInf = PosInf"
| "Math_sqrt _ = NaN"

fun Math_round :: "jsnum \<Rightarrow> jsnum" where
  \<comment> \<open>\<^verbatim>\<open>Math.round\<close>: the nearest integer, a half rounding up\<close>
  "Math_round (Fin a) = Fin (of_int \<lfloor>a + 1 / 2\<rfloor>)"
| "Math_round a = a"

text \<open>
  The double nearest to a real, ties to the even significand: a double has a significand
  of 53 bits, so the doubles between \<open>2^e\<close> and \<open>2^(e+1)\<close> are the multiples of
  \<open>2^(e-52)\<close>. Overflow and subnormal numbers are left out (the data quality lies
  between 0 and 100).
\<close>

definition pow2 :: "int \<Rightarrow> real" where
  "pow2 e = (if 0 \<le> e then 2 ^ nat e else 1 / 2 ^ nat (- e))"

definition round_half_even :: "real \<Rightarrow> int" where
  "round_half_even q =
     (let f = \<lfloor>q\<rfloor>
      in if q - of_int f < 1 / 2 then f
         else if 1 / 2 < q - of_int f then f + 1
         else if even f then f else f + 1)"

definition to_double :: "real \<Rightarrow> real" where
  "to_double a =
     (if a = 0 then 0
      else let e = \<lfloor>log 2 \<bar>a\<bar>\<rfloor>; u = pow2 (e - 52)
           in of_int (round_half_even (a / u)) * u)"

fun rounded :: "jsnum \<Rightarrow> jsnum" where
  \<comment> \<open>the result of an operation on doubles: the double nearest to the exact result\<close>
  "rounded (Fin a) = Fin (to_double a)"
| "rounded a = a"

definition num_or :: "jsnum \<Rightarrow> jsnum \<Rightarrow> jsnum" where
  \<comment> \<open>\<^verbatim>\<open>a || d\<close> on a number \<open>a\<close>: NaN and zero are falsy\<close>
  "num_or a d = (if a = NaN \<or> a = Fin 0 then d else a)"

subsection \<open>Coercions\<close>

fun truthy :: "jsval \<Rightarrow> bool" where
  "truthy JUndefined = False"
| "truthy JNull = False"
| "truthy (JBool b) = b"
| "truthy (JNum a) = (a \<noteq> NaN \<and> a \<noteq> Fin 0)"
| "truthy (JStr s) = (s \<noteq> [])"
| "truthy (JDate i t) = True"
| "truthy (JInherited k) = True"

definition js_or :: "jsval \<Rightarrow> jsval \<Rightarrow> jsval" where
  \<comment> \<open>\<^verbatim>\<open>a || b\<close>\<close>
  "js_or a b = (if truthy a then a else b)"

text \<open>
  The text of the member of \<^verbatim>\<open>Object.prototype\<close> named \<open>k\<close>: \<^verbatim>\<open>__proto__\<close> reads the
  prototype object itself, every other member is a native function.
\<close>

definition inherited_text :: "engine \<Rightarrow> string \<Rightarrow> string" where
  "inherited_text eng k =
     (if k = ''__proto__'' then ''[object Object]'' else ''function'' @ member_text eng k)"

text \<open>\<^verbatim>\<open>String(v)\<close>, which is also the property key that \<open>v\<close> makes.\<close>

fun jsToString :: "engine \<Rightarrow> jsval \<Rightarrow> string" where
  "jsToString eng JUndefined = ''undefined''"
| "jsToString eng JNull = ''null''"
| "jsToString eng (JBool b) = (if b then ''true'' else ''false'')"
| "jsToString eng (JNum NaN) = ''NaN''"
| "jsToString eng (JNum PosInf) = ''Infinity''"
| "jsToString eng (JNum NegInf) = ''-Infinity''"
| "jsToString eng (JNum (Fin a)) = number_text eng a"
| "jsToString eng (JStr s) = s"
| "jsToString eng (JDate i None) = ''Invalid Date''"
| "jsToString eng (JDate i (Some t)) = date_text eng t"
| "jsToString eng (JInherited k) = inherited_text eng k"

text \<open>
  \<^verbatim>\<open>ToNumber\<close> on the values that are not strings. A date converts to its time value; an
  inherited member converts through its text, which is no numeral. A string converts by
  \<^verbatim>\<open>StringToNumber\<close>, which no function below reaches: every string has been replaced
  by its \<^verbatim>\<open>parseFloat\<close> before a number is asked of it. The equation is left out.
\<close>

fun ToNumber :: "jsval \<Rightarrow> jsnum" where
  "ToNumber JUndefined = NaN"
| "ToNumber JNull = Fin 0"
| "ToNumber (JBool b) = (if b then Fin 1 else Fin 0)"
| "ToNumber (JNum a) = a"
| "ToNumber (JDate i None) = NaN"
| "ToNumber (JDate i (Some t)) = Fin t"
| "ToNumber (JInherited k) = NaN"

definition isNaN :: "jsval \<Rightarrow> bool" where
  \<comment> \<open>the global \<^verbatim>\<open>isNaN(v)\<close>\<close>
  "isNaN v = isNaN_num (ToNumber v)"

subsection \<open>parseFloat\<close>

definition is_digit :: "char \<Rightarrow> bool" where
  "is_digit c = (c \<in> set ''0123456789'')"

definition digit_val :: "char \<Rightarrow> nat" where
  "digit_val c = of_char c - 48"

definition digits_val :: "string \<Rightarrow> nat" where
  "digits_val ds = foldl (\<lambda>acc c. 10 * acc + digit_val c) 0 ds"

definition is_space :: "char \<Rightarrow> bool" where
  \<comment> \<open>tab, line feed, vertical tab, form feed, carriage return, space\<close>
  "is_space c = (of_char c \<in> {9, 10, 11, 12, 13, 32 :: nat})"

definition scale10 :: "real \<Rightarrow> int \<Rightarrow> real" where
  "scale10 m e = (if 0 \<le> e then m * 10 ^ nat e else m / 10 ^ nat (- e))"

definition parse_exponent :: "string \<Rightarrow> int" where
  \<comment> \<open>the exponent part \<^verbatim>\<open>[eE][+-]?digits\<close> at the head of the rest, 0 when there is none\<close>
  "parse_exponent r =
     (case r of
        [] \<Rightarrow> 0
      | c # t \<Rightarrow>
          if c = CHR ''e'' \<or> c = CHR ''E'' then
            (case t of
               [] \<Rightarrow> 0
             | d # u \<Rightarrow>
                 if d = CHR ''-'' then
                   (if takeWhile is_digit u = [] then 0
                    else - int (digits_val (takeWhile is_digit u)))
                 else if d = CHR ''+'' then int (digits_val (takeWhile is_digit u))
                 else int (digits_val (takeWhile is_digit t)))
          else 0)"

definition parse_unsigned :: "string \<Rightarrow> real option" where
  \<comment> \<open>the longest prefix that is an unsigned decimal literal; \<open>None\<close> when there is none\<close>
  "parse_unsigned s =
     (let ip = takeWhile is_digit s;
          r1 = dropWhile is_digit s;
          fp = (case r1 of [] \<Rightarrow> [] | c # t \<Rightarrow> if c = CHR ''.'' then takeWhile is_digit t else []);
          r2 = (case r1 of [] \<Rightarrow> [] | c # t \<Rightarrow> if c = CHR ''.'' then dropWhile is_digit t else r1)
      in if ip = [] \<and> fp = [] then None
         else Some (scale10 (real (digits_val ip) + real (digits_val fp) / 10 ^ length fp)
                      (parse_exponent r2)))"

definition parse_magnitude :: "string \<Rightarrow> jsnum" where
  "parse_magnitude s =
     (if take 8 s = ''Infinity'' then PosInf
      else case parse_unsigned s of None \<Rightarrow> NaN | Some m \<Rightarrow> Fin m)"

definition parseFloat_str :: "string \<Rightarrow> jsnum" where
  "parseFloat_str s =
     (case dropWhile is_space s of
        [] \<Rightarrow> NaN
      | c # t \<Rightarrow>
          if c = CHR ''-'' then jneg (parse_magnitude t)
          else if c = CHR ''+'' then parse_magnitude t
          else parse_magnitude (c # t))"

text \<open>
  \<^verbatim>\<open>parseFloat(v)\<close> on any value parses \<^verbatim>\<open>String(v)\<close>: a number parses back to itself,
  and the strings of undefined, null, true and false, the text of a date (it begins with
  the name of a weekday, or is \<^verbatim>\<open>Invalid Date\<close>) and the text of an inherited member (it
  begins with \<^verbatim>\<open>function\<close> or \<^verbatim>\<open>[object\<close>) have no numeric prefix.
\<close>

fun parseFloat :: "jsval \<Rightarrow> jsnum" where
  "parseFloat (JStr s) = parseFloat_str s"
| "parseFloat (JNum a) = a"
| "parseFloat _ = NaN"

subsection \<open>Arrays and objects\<close>

text \<open>
  \<^verbatim>\<open>xs.slice(0, limit)\<close> for an integer \<open>limit\<close>: a negative limit counts from the end.
\<close>

definition slice0 :: "int \<Rightarrow> 'a list \<Rightarrow> 'a list" where
  "slice0 limit xs =
     (if limit < 0 then take (nat (int (length xs) + limit)) xs else take (nat limit) xs)"

text \<open>
  \<^verbatim>\<open>xs.sort(cmp)\<close>: the stable sort (ECMAScript 2019) by a comparator that returns a
  number; \<open>a\<close> goes before \<open>b\<close> when \<open>cmp a b\<close> is negative, and NaN counts as zero.
  When the comparator is not consistent (it answers NaN for a pair whose order matters)
  the language leaves the order to the engine; the model then gives one of the orders.
\<close>

fun is_negative :: "jsnum \<Rightarrow> bool" where
  "is_negative NegInf = True"
| "is_negative (Fin a) = (a < 0)"
| "is_negative _ = False"

fun insert_sorted :: "('a \<Rightarrow> 'a \<Rightarrow> jsnum) \<Rightarrow> 'a \<Rightarrow> 'a list \<Rightarrow> 'a list" where
  "insert_sorted cmp a [] = [a]"
| "insert_sorted cmp a (b # bs) =
     (if is_negative (cmp b a) then b # insert_sorted cmp a bs else a # b # bs)"

definition Array_sort :: "('a \<Rightarrow> 'a \<Rightarrow> jsnum) \<Rightarrow> 'a list \<Rightarrow> 'a list" where
  "Array_sort cmp xs = foldr (insert_sorted cmp) xs []"

text \<open>
  The objects built by \<^verbatim>\<open>reduce\<close> as counters, starting from \<^verbatim>\<open>{}\<close>: the own
  properties in the order of their creation. The value of a property is a count, or a
  string that is no numeral (the text of an inherited member followed by ones).
\<close>

datatype cval = Count nat | Junk string

type_synonym counter = "(string \<times> cval) list"

fun plus_one :: "cval \<Rightarrow> cval" where
  \<comment> \<open>\<^verbatim>\<open>v + 1\<close>: a number is incremented, a string extended\<close>
  "plus_one (Count n) = Count (n + 1)"
| "plus_one (Junk s) = Junk (s @ ''1'')"

text \<open>
  \<^verbatim>\<open>acc[key] = (acc[key] || 0) + 1\<close>. An own property is truthy and is incremented. When
  \<open>key\<close> is no own property, \<^verbatim>\<open>acc[key]\<close> reads \<^verbatim>\<open>Object.prototype\<close>: a member found there
  is truthy, adding 1 to it gives its text followed by \<open>1\<close>, and the assignment stores that
  string as an own property; but for \<^verbatim>\<open>__proto__\<close> the assignment calls the inherited
  setter, which ignores a string, and no property is created. Otherwise the read is
  undefined and the property is created with the count 1.
\<close>

fun bump :: "engine \<Rightarrow> counter \<Rightarrow> string \<Rightarrow> counter" where
  "bump eng [] k =
     (if k = ''__proto__'' then []
      else if k \<in> set proto_members then [(k, Junk (inherited_text eng k @ ''1''))]
      else [(k, Count 1)])"
| "bump eng ((k', v) # rest) k =
     (if k' = k then (k', plus_one v) # rest else (k', v) # bump eng rest k)"

text \<open>
  The order in which \<^verbatim>\<open>Object.keys\<close>, \<^verbatim>\<open>Object.values\<close> and \<^verbatim>\<open>Object.entries\<close> list the
  own properties: first the keys that are array indices (canonical decimal numerals below
  \<open>2^32 - 1\<close>) in ascending numeric order, then the other keys in the order of their
  creation.
\<close>

definition array_index :: "string \<Rightarrow> nat option" where
  "array_index k =
     (if k \<noteq> [] \<and> list_all is_digit k \<and> (k = ''0'' \<or> hd k \<noteq> CHR ''0'') \<and> digits_val k < 2 ^ 32 - 1
      then Some (digits_val k) else None)"

definition index_rank :: "string \<times> cval \<Rightarrow> nat" where
  "index_rank e = (case array_index (fst e) of None \<Rightarrow> 0 | Some i \<Rightarrow> i)"

definition Object_entries :: "counter \<Rightarrow> (string \<times> cval) list" where
  "Object_entries obj =
     sort_key index_rank (filter (\<lambda>e. array_index (fst e) \<noteq> None) obj) @
     filter (\<lambda>e. array_index (fst e) = None) obj"

definition Object_keys :: "counter \<Rightarrow> string list" where
  "Object_keys obj = map fst (Object_entries obj)"

definition Object_values :: "counter \<Rightarrow> cval list" where
  "Object_values obj = map snd (Object_entries obj)"

text \<open>The number that a value of a counter converts to, and the value as a cell.\<close>

fun cval_number :: "cval \<Rightarrow> jsnum" where
  "cval_number (Count n) = Fin (real n)"
| "cval_number (Junk s) = NaN"

fun cval_value :: "cval \<Rightarrow> jsval" where
  "cval_value (Count n) = JNum (Fin (real n))"
| "cval_value (Junk s) = JStr s"

text \<open>
  \<^verbatim>\<open>Math.max(...vs)\<close> on the values of a counter: \<open>-Infinity\<close> for no value, NaN as soon
  as one value converts to NaN.
\<close>

fun js_max :: "jsnum \<Rightarrow> jsnum \<Rightarrow> jsnum" where
  "js_max NaN _ = NaN"
| "js_max _ NaN = NaN"
| "js_max PosInf _ = PosInf"
| "js_max _ PosInf = PosInf"
| "js_max NegInf b = b"
| "js_max a NegInf = a"
| "js_max (Fin a) (Fin b) = Fin (max a b)"

definition Math_max :: "cval list \<Rightarrow> jsnum" where
  "Math_max vs = foldl (\<lambda>m v. js_max m (cval_number v)) NegInf vs"

text \<open>
  \<^verbatim>\<open>Object.keys(counts).find(key => counts[key] === maxCount)\<close>; \<open>None\<close> is the
  \<^verbatim>\<open>undefined\<close> of a search that finds nothing. A string is never \<^verbatim>\<open>===\<close> a number, and
  NaN is \<^verbatim>\<open>===\<close> nothing.
\<close>

fun strictly_equal :: "cval \<Rightarrow> jsnum \<Rightarrow> bool" where
  "strictly_equal (Count n) (Fin m) = (real n = m)"
| "strictly_equal _ _ = False"

definition find_mode :: "counter \<Rightarrow> string option" where
  "find_mode counts =
     find (\<lambda>key. case map_of counts key of None \<Rightarrow> False
                 | Some v \<Rightarrow> strictly_equal v (Math_max (Object_values counts)))
       (Object_keys counts)"

section \<open>The server: column statistics and the dataset summary\<close>

text \<open>
  A row is an object: its own properties are a finite map from column names to cells, and
  it inherits the members of \<^verbatim>\<open>Object.prototype\<close>.
\<close>

type_synonym row = "string \<rightharpoonup> jsval"

definition cell :: "row \<Rightarrow> string \<Rightarrow> jsval" where
  \<comment> \<open>\<^verbatim>\<open>row[column]\<close>\<close>
  "cell r c =
     (case r c of
        Some v \<Rightarrow> v
      | None \<Rightarrow> if c \<in> set proto_members then JInherited c else JUndefined)"

definition nonNull :: "jsval list \<Rightarrow> jsval list" where
  \<comment> \<open>\<^verbatim>\<open>values.filter(v => v !== null && v !== undefined && v !== '')\<close>\<close>
  "nonNull vs = filter (\<lambda>v. v \<noteq> JNull \<and> v \<noteq> JUndefined \<and> v \<noteq> JStr []) vs"

text \<open>
  The profile of a column. The fields beyond the first three are present only in the
  branch that sets them.
\<close>

record ColumnStats =
  count :: nat
  nullCount :: nat
  uniqueCount :: nat
  mean :: "jsnum option"
  min_val :: "jsval option"
  max_val :: "jsval option"
  range_val :: "jsnum option"
  median :: "jsval option"
  variance :: "jsnum option"
  standardDeviation :: "jsnum option"
  mode :: "string option option"
  averageLength :: "jsnum option"

definition baseStats :: "jsval list \<Rightarrow> ColumnStats" where
  "baseStats vs =
     \<lparr>count = length vs, nullCount = length vs - length (nonNull vs),
      uniqueCount = length (remdups (nonNull vs)),
      mean = None, min_val = None, max_val = None, range_val = None, median = None,
      variance = None, standardDeviation = None, mode = None, averageLength = None\<rparr>"

definition parse_string :: "jsval \<Rightarrow> jsval" where
  \<comment> \<open>\<^verbatim>\<open>typeof v === 'string' ? parseFloat(v) : v\<close>\<close>
  "parse_string v = (case v of JStr s \<Rightarrow> JNum (parseFloat_str s) | _ \<Rightarrow> v)"

definition numericValues :: "jsval list \<Rightarrow> jsval list" where
  "numericValues vs = filter (\<lambda>v. \<not> isNaN v) (map parse_string (nonNull vs))"

definition by_difference :: "jsval \<Rightarrow> jsval \<Rightarrow> jsnum" where
  \<comment> \<open>the comparator \<^verbatim>\<open>(a, b) => a - b\<close>\<close>
  "by_difference a b = jsub (ToNumber a) (ToNumber b)"

text \<open>
  \<^verbatim>\<open>a + b\<close> on two values: a date or an inherited member makes it a concatenation of
  strings, and the result (\<open>Joined\<close>) is a string that holds a text and is no numeral;
  otherwise it is the sum of two numbers. A string operand does not occur: the equation is
  left out.
\<close>

datatype added = Total jsnum | Joined

fun joins :: "jsval \<Rightarrow> bool" where
  "joins (JDate i t) = True"
| "joins (JInherited k) = True"
| "joins JUndefined = False"
| "joins JNull = False"
| "joins (JBool b) = False"
| "joins (JNum a) = False"

definition js_plus :: "jsval \<Rightarrow> jsval \<Rightarrow> added" where
  "js_plus a b = (if joins a \<or> joins b then Joined else Total (jadd (ToNumber a) (ToNumber b)))"

fun add_value :: "added \<Rightarrow> jsval \<Rightarrow> added" where
  \<comment> \<open>\<^verbatim>\<open>acc + val\<close> for an accumulator that is a number or already a string\<close>
  "add_value (Total a) v = js_plus (JNum a) v"
| "add_value Joined v = Joined"

fun added_number :: "added \<Rightarrow> jsnum" where
  \<comment> \<open>the number that a sum converts to when it is divided\<close>
  "added_number (Total a) = a"
| "added_number Joined = NaN"

definition numericStats :: "jsval list \<Rightarrow> ColumnStats \<Rightarrow> ColumnStats" where
  "numericStats nums stats =
     (let sorted = Array_sort by_difference nums;
          sum = foldl add_value (Total (Fin 0)) nums;
          mean' = jdiv (added_number sum) (Fin (real (length nums)));
          min' = sorted ! 0;
          max' = sorted ! (length sorted - 1);
          mid = length sorted div 2;
          variance' = jdiv (foldl (\<lambda>acc v. jadd acc (Math_pow2 (jsub (ToNumber v) mean'))) (Fin 0) nums)
                        (Fin (real (length nums)))
      in stats\<lparr>mean := Some mean', min_val := Some min', max_val := Some max',
               range_val := Some (jsub (ToNumber max') (ToNumber min')),
               median := Some (if length sorted mod 2 = 0
                               then JNum (jdiv (added_number (js_plus (sorted ! (mid - 1)) (sorted ! mid))) (Fin 2))
                               else sorted ! mid),
               variance := Some variance', standardDeviation := Some (Math_sqrt variance')\<rparr>)"

text \<open>
  The server's \<^verbatim>\<open>calculateColumnStatistics(values, columnName)\<close>; it never reads its
  second argument. A property key \<^verbatim>\<open>acc[val]\<close> is the string of \<open>val\<close>.
\<close>

definition calculateColumnStatistics :: "engine \<Rightarrow> jsval list \<Rightarrow> ColumnStats" where
  "calculateColumnStatistics eng vs =
     (let nonNullValues = nonNull vs;
          nums = numericValues vs;
          stats = baseStats vs
      in if length nums > 0 then numericStats nums stats
         else if length nonNullValues > 0
         then (let counts = foldl (\<lambda>acc val. bump eng acc (jsToString eng val)) [] nonNullValues
               in stats\<lparr>mode := Some (find_mode counts)\<rparr>)
         else stats)"

record DatasetSummary =
  totalRecords :: nat
  totalColumns :: nat
  numericColumns :: nat
  textColumns :: nat
  missingValues :: nat
  dataQuality :: jsnum

text \<open>
  The body of the \<^verbatim>\<open>headers.forEach\<close>: the three counters
  (numericColumns, textColumns, totalMissingValues) after one more header.
\<close>

definition summary_step :: "row list \<Rightarrow> nat \<times> nat \<times> nat \<Rightarrow> string \<Rightarrow> nat \<times> nat \<times> nat" where
  "summary_step rows acc header =
     (case acc of (nc, tc, missing) \<Rightarrow>
        let columnValues = map (\<lambda>r. cell r header) rows;
            nonNullValues = nonNull columnValues;
            nums = numericValues columnValues;
            missing' = missing + (length columnValues - length nonNullValues)
        in if real (length nums) > real (length nonNullValues) * 0.5
           then (nc + 1, tc, missing') else (nc, tc + 1, missing'))"

text \<open>
  The summary. The numbers of cells are integers, which doubles hold exactly; the quotient
  and its product with 100 are rounded to doubles before \<^verbatim>\<open>Math.round\<close>, which can
  therefore fall on the other side of a half than the exact value would.
\<close>

definition calculateSummaryStats :: "string list \<Rightarrow> row list \<Rightarrow> DatasetSummary" where
  "calculateSummaryStats headers rows =
     (let totalRecords' = length rows;
          totalColumns' = length headers
      in case foldl (summary_step rows) (0, 0, 0) headers of
           (nc, tc, totalMissingValues) \<Rightarrow>
             \<lparr>totalRecords = totalRecords', totalColumns = totalColumns',
              numericColumns = nc, textColumns = tc, missingValues = totalMissingValues,
              dataQuality =
                (if totalRecords' > 0
                 then Math_round
                        (rounded
                           (jmul (rounded
                                    (jdiv (Fin (real (totalRecords' * totalColumns') - real totalMissingValues))
                                          (Fin (real (totalRecords' * totalColumns')))))
                                 (Fin 100)))
                 else Fin 100)\<rparr>)"

section \<open>The client: chart projections and type detection\<close>

record ChartDataPoint =
  pt_name :: string
  pt_value :: jsval
  pt_x :: "jsnum option"
  pt_y :: "jsnum option"

text \<open>A parameter with a default value: \<open>None\<close> is the argument left out.\<close>

definition or_default :: "int \<Rightarrow> int option \<Rightarrow> int" where
  "or_default d limit = (case limit of None \<Rightarrow> d | Some l \<Rightarrow> l)"

text \<open>The decimal numeral of a natural number, as a template literal prints an index.\<close>

definition digit_char :: "nat \<Rightarrow> char" where
  "digit_char d = ''0123456789'' ! d"

fun nat_to_string :: "nat \<Rightarrow> string" where
  "nat_to_string n = (if n < 10 then [digit_char n] else nat_to_string (n div 10) @ [digit_char (n mod 10)])"

definition prepareBarChartData ::
  "engine \<Rightarrow> row list \<Rightarrow> string \<Rightarrow> string \<Rightarrow> int option \<Rightarrow> ChartDataPoint list" where
  "prepareBarChartData eng data xColumn yColumn limit =
     filter (\<lambda>item. \<not> isNaN (pt_value item))
       (map (\<lambda>(index, r).
               \<lparr>pt_name = jsToString eng (js_or (cell r xColumn) (JStr (''Item '' @ nat_to_string (index + 1)))),
                pt_value = JNum (num_or (parseFloat (cell r yColumn)) (Fin 0)),
                pt_x = None, pt_y = None\<rparr>)
          (enumerate 0 (slice0 (or_default 20 limit) data)))"

definition by_count_descending :: "string \<times> cval \<Rightarrow> string \<times> cval \<Rightarrow> jsnum" where
  \<comment> \<open>the comparator \<^verbatim>\<open>([,a], [,b]) => b - a\<close>\<close>
  "by_count_descending ea eb = jsub (cval_number (snd eb)) (cval_number (snd ea))"

definition preparePieChartData ::
  "engine \<Rightarrow> row list \<Rightarrow> string \<Rightarrow> int option \<Rightarrow> ChartDataPoint list" where
  "preparePieChartData eng data column limit =
     (let groups = foldl (\<lambda>acc r. bump eng acc (jsToString eng (js_or (cell r column) (JStr ''Unknown'')))) [] data
      in map (\<lambda>(name, v). \<lparr>pt_name = name, pt_value = cval_value v, pt_x = None, pt_y = None\<rparr>)
           (slice0 (or_default 8 limit) (Array_sort by_count_descending (Object_entries groups))))"

fun isNaN_field :: "jsnum option \<Rightarrow> bool" where
  \<comment> \<open>\<^verbatim>\<open>isNaN(item.x)\<close>; a field that is absent reads as undefined\<close>
  "isNaN_field None = True"
| "isNaN_field (Some a) = isNaN_num a"

definition prepareScatterData ::
  "engine \<Rightarrow> row list \<Rightarrow> string \<Rightarrow> string \<Rightarrow> int option \<Rightarrow> ChartDataPoint list" where
  "prepareScatterData eng data xColumn yColumn limit =
     filter (\<lambda>item. \<not> isNaN_field (pt_x item) \<and> \<not> isNaN_field (pt_y item))
       (map (\<lambda>r.
               \<lparr>pt_name = jsToString eng (cell r xColumn) @ '', '' @ jsToString eng (cell r yColumn),
                pt_value = JNum (num_or (parseFloat (cell r yColumn)) (Fin 0)),
                pt_x = Some (num_or (parseFloat (cell r xColumn)) (Fin 0)),
                pt_y = Some (num_or (parseFloat (cell r yColumn)) (Fin 0))\<rparr>)
          (slice0 (or_default 100 limit) data))"

datatype ChartType = Bar | Line | Pie | Scatter

text \<open>
  The fractions are quotients of lengths with a non-zero divisor, hence finite; they are
  computed in the reals. \<^verbatim>\<open>new Set(xValues).size\<close> counts the distinct cells.
\<close>

definition getOptimalChartType :: "row list \<Rightarrow> string \<Rightarrow> string \<Rightarrow> ChartType" where
  "getOptimalChartType data xColumn yColumn =
     (if length data = 0 then Bar
      else
        let xValues = map (\<lambda>r. cell r xColumn) data;
            yValues = map (\<lambda>r. cell r yColumn) data;
            xNumeric = real (length (filter (\<lambda>v. \<not> isNaN_num (parseFloat v)) xValues)) / real (length xValues);
            yNumeric = real (length (filter (\<lambda>v. \<not> isNaN_num (parseFloat v)) yValues)) / real (length yValues);
            uniqueXValues = length (remdups xValues);
            totalXValues = length xValues
        in if xNumeric > 0.8 \<and> yNumeric > 0.8 \<and> totalXValues > 20 then Scatter
           else if real uniqueXValues < real totalXValues * 0.5 \<and> yNumeric > 0.8 then Bar
           else if xNumeric > 0.8 \<and> yNumeric > 0.8 then Line
           else if uniqueXValues < 10 \<and> uniqueXValues > 1 then Pie
           else Bar)"

datatype ColumnType = Text | Number | Date | Boolean

definition lower_char :: "char \<Rightarrow> char" where
  "lower_char c =
     (case map_of (zip ''ABCDEFGHIJKLMNOPQRSTUVWXYZ'' ''abcdefghijklmnopqrstuvwxyz'') c of
        None \<Rightarrow> c | Some d \<Rightarrow> d)"

definition toLowerCase :: "string \<Rightarrow> string" where
  "toLowerCase s = map lower_char s"

definition strip_currency :: "string \<Rightarrow> string" where
  \<comment> \<open>\<^verbatim>\<open>v.replace(/[$,]/g, '')\<close>\<close>
  "strip_currency s = filter (\<lambda>c. c \<noteq> CHR ''$'' \<and> c \<noteq> CHR '','') s"

fun looks_boolean :: "jsval \<Rightarrow> bool" where
  "looks_boolean (JBool b) = True"
| "looks_boolean (JStr s) = (toLowerCase s \<in> set [''true'', ''false'', ''yes'', ''no'', ''1'', ''0''])"
| "looks_boolean _ = False"

fun looks_numeric :: "jsval \<Rightarrow> bool" where
  "looks_numeric (JNum a) = True"
| "looks_numeric (JStr s) = (\<not> isNaN_num (parseFloat_str (strip_currency s)))"
| "looks_numeric _ = False"

fun looks_date :: "engine \<Rightarrow> jsval \<Rightarrow> bool" where
  \<comment> \<open>\<^verbatim>\<open>v instanceof Date\<close>, or a string of which \<^verbatim>\<open>new Date(v)\<close> is a valid date\<close>
  "looks_date eng (JDate i t) = True"
| "looks_date eng (JStr s) = date_parses eng s"
| "looks_date eng _ = False"

definition detectColumnType :: "engine \<Rightarrow> jsval list \<Rightarrow> ColumnType" where
  "detectColumnType eng vs =
     (let nonNullValues = nonNull vs
      in if length nonNullValues = 0 then Text
         else
           let booleanValues = filter looks_boolean nonNullValues
           in if real (length booleanValues) > real (length nonNullValues) * 0.8 then Boolean
              else
                let nums = filter looks_numeric nonNullValues
                in if real (length nums) > real (length nonNullValues) * 0.8 then Number
                   else
                     let dateValues = filter (looks_date eng) nonNullValues
                     in if real (length dateValues) > real (length nonNullValues) * 0.8 then Date
                        else Text)"

text \<open>The client's \<^verbatim>\<open>calculateColumnStatistics(values, columnType)\<close>.\<close>

definition parse_string_stripped :: "jsval \<Rightarrow> jsval" where
  \<comment> \<open>\<^verbatim>\<open>typeof v === 'string' ? parseFloat(v.replace(/[$,]/g, '')) : v\<close>\<close>
  "parse_string_stripped v = (case v of JStr s \<Rightarrow> JNum (parseFloat_str (strip_currency s)) | _ \<Rightarrow> v)"

definition calculateColumnStatistics_client ::
  "engine \<Rightarrow> jsval list \<Rightarrow> string \<Rightarrow> ColumnStats" where
  "calculateColumnStatistics_client eng vs columnType =
     (let nonNullValues = nonNull vs;
          nums = filter (\<lambda>v. \<not> isNaN v) (map parse_string_stripped nonNullValues)
      in if columnType = ''number'' \<and> length nums > 0 then numericStats nums (baseStats vs)
         else if columnType = ''text''
         then (let counts = foldl (\<lambda>acc val. bump eng acc (jsToString eng val)) [] nonNullValues
               in (baseStats vs)
                    \<lparr>mode := Some (find_mode counts),
                     averageLength :=
                       Some (jdiv (Fin (real (foldl (\<lambda>acc val. acc + length (jsToString eng val)) 0 nonNullValues)))
                                  (Fin (real (length nonNullValues))))\<rparr>)
         else baseStats vs)"

section \<open>The scenario of the specification\<close>

definition sales_rows :: "row list" where
  "sales_rows =
     [[''Region'' \<mapsto> JStr ''East'', ''Sales'' \<mapsto> JStr ''100''],
      [''Region'' \<mapsto> JStr ''East'', ''Sales'' \<mapsto> JStr ''200''],
      [''Region'' \<mapsto> JStr ''West'', ''Sales'' \<mapsto> JNull]]"

section \<open>Notions of the specification\<close>

text \<open>A column of a dataset: the cells of its rows under one name, in row order.\<close>

definition column :: "row list \<Rightarrow> string \<Rightarrow> jsval list" where
  "column data c = map (\<lambda>r. cell r c) data"

text \<open>The fraction of the values that parse as numbers, and the fraction of distinct values.\<close>

definition numeric_fraction :: "jsval list \<Rightarrow> real" where
  "numeric_fraction vs = real (length (filter (\<lambda>v. parseFloat v \<noteq> NaN) vs)) / real (length vs)"

definition unique_fraction :: "jsval list \<Rightarrow> real" where
  "unique_fraction vs = real (card (set vs)) / real (length vs)"

text \<open>Thirty rows, of which twenty-seven are numeric in both columns.\<close>

definition numeric_rows :: "row list" where
  "numeric_rows =
     replicate 27 [''x'' \<mapsto> JNum (Fin 1), ''y'' \<mapsto> JStr ''2.5''] @
     replicate 3 [''x'' \<mapsto> JStr ''n/a'', ''y'' \<mapsto> JNull]"

text \<open>The distinct elements of a list in the order of their first occurrence.\<close>

primrec first_seen :: "'a list \<Rightarrow> 'a list" where
  "first_seen [] = []"
| "first_seen (a # as) = a # filter (\<lambda>b. b \<noteq> a) (first_seen as)"

text \<open>
  The order in which an object enumerates keys that were created in the order \<open>ks\<close>:
  the array indices ascending, then the rest as created.
\<close>

definition key_order :: "string list \<Rightarrow> string list" where
  "key_order ks =
     sort_key (\<lambda>k. case array_index k of None \<Rightarrow> 0 | Some i \<Rightarrow> i) (filter (\<lambda>k. array_index k \<noteq> None) ks) @
     filter (\<lambda>k. array_index k = None) ks"

text \<open>The counter that a \<^verbatim>\<open>reduce\<close> builds from a list of keys.\<close>

definition count_keys :: "engine \<Rightarrow> string list \<Rightarrow> counter" where
  "count_keys eng ks = foldl (bump eng) [] ks"

text \<open>
  A plain key is one that \<^verbatim>\<open>Object.prototype\<close> has no member for: counting it in an object
  counts its occurrences. The value that a counter holds for any key after the keys \<open>ks\<close>:
  for a plain key the number of its occurrences, for the name of an inherited member the
  text of the member followed by one \<open>1\<close> for each occurrence.
\<close>

definition plain_key :: "string \<Rightarrow> bool" where
  "plain_key k = (k \<notin> set proto_members)"

definition counted :: "engine \<Rightarrow> string list \<Rightarrow> string \<Rightarrow> cval" where
  "counted eng ks k =
     (if plain_key k then Count (count_list ks k)
      else Junk (inherited_text eng k @ replicate (count_list ks k) (CHR ''1'')))"

text \<open>
  The keys that a counter holds a string for (the names of the inherited functions), and
  the keys of a list that a counter counts at all (\<^verbatim>\<open>__proto__\<close> is never stored).
\<close>

definition junk_key :: "string \<Rightarrow> bool" where
  "junk_key k = (k \<in> set proto_members \<and> k \<noteq> ''__proto__'')"

definition counted_keys :: "string list \<Rightarrow> string list" where
  "counted_keys ks = filter (\<lambda>k. k \<noteq> ''__proto__'') ks"

text \<open>
  The group of a row in the pie projection: the string of its cell, and \<open>Unknown\<close> for
  every falsy cell.
\<close>

definition group_name :: "engine \<Rightarrow> string \<Rightarrow> row \<Rightarrow> string" where
  "group_name eng c r = (if truthy (cell r c) then jsToString eng (cell r c) else ''Unknown'')"

definition pie_point :: "string \<Rightarrow> nat \<Rightarrow> ChartDataPoint" where
  "pie_point k n = \<lparr>pt_name = k, pt_value = JNum (Fin (real n)), pt_x = None, pt_y = None\<rparr>"

text \<open>
  The groups of a pie projection in the order of the result: by descending count, groups
  of equal count in the order in which the object enumerates them.
\<close>

definition pie_ranking :: "string list \<Rightarrow> string list" where
  "pie_ranking keys = sort_key (\<lambda>k. - int (count_list keys k)) (key_order (first_seen keys))"

text \<open>
  The pie projection as the specification words it: rows grouped by the string of the cell,
  a missing cell (undefined or null) under \<open>Unknown\<close>, the groups in first-seen order,
  sorted stably by descending count, the first \<open>limit\<close> kept.
\<close>

definition missing_cell :: "jsval \<Rightarrow> bool" where
  "missing_cell v = (v = JUndefined \<or> v = JNull)"

definition pie_as_claimed ::
  "engine \<Rightarrow> row list \<Rightarrow> string \<Rightarrow> nat \<Rightarrow> ChartDataPoint list" where
  "pie_as_claimed eng data c limit =
     (let keys = map (\<lambda>r. if missing_cell (cell r c) then ''Unknown'' else jsToString eng (cell r c)) data
      in map (\<lambda>k. pie_point k (count_list keys k))
           (take limit (sort_key (\<lambda>k. - int (count_list keys k)) (first_seen keys))))"

text \<open>
  The comparison \<^verbatim>\<open>a <= b\<close> of two numbers, the value of a point when it is a number, and
  the sum of the values of a list of points.
\<close>

fun js_le :: "jsnum \<Rightarrow> jsnum \<Rightarrow> bool" where
  "js_le NaN _ = False"
| "js_le _ NaN = False"
| "js_le (Fin a) (Fin b) = (a \<le> b)"
| "js_le NegInf _ = True"
| "js_le _ PosInf = True"
| "js_le _ _ = False"

definition value_number :: "ChartDataPoint \<Rightarrow> jsnum" where
  "value_number p = (case pt_value p of JNum a \<Rightarrow> a | _ \<Rightarrow> NaN)"

definition total_value :: "ChartDataPoint list \<Rightarrow> jsnum" where
  "total_value ps = foldl jadd (Fin 0) (map value_number ps)"

text \<open>
  A row with a falsy cell under \<open>c\<close> made a missing one, in the two ways a cell can be
  missing: the cell is null, or the row has no cell under \<open>c\<close>.
\<close>

definition nullified :: "string \<Rightarrow> row \<Rightarrow> row" where
  "nullified c r = (if truthy (cell r c) then r else r(c \<mapsto> JNull))"

definition blank :: "string \<Rightarrow> row \<Rightarrow> row" where
  "blank c r = (if truthy (cell r c) then r else r(c := None))"

text \<open>The point that the bar projection makes of the row \<open>r\<close> at index \<open>i\<close>.\<close>

definition bar_point :: "engine \<Rightarrow> string \<Rightarrow> string \<Rightarrow> nat \<Rightarrow> row \<Rightarrow> ChartDataPoint" where
  "bar_point eng xc yc i r =
     \<lparr>pt_name = jsToString eng (js_or (cell r xc) (JStr (''Item '' @ nat_to_string (i + 1)))),
      pt_value = JNum (num_or (parseFloat (cell r yc)) (Fin 0)), pt_x = None, pt_y = None\<rparr>"

text \<open>The values of a column by their kind.\<close>

fun native_boolean :: "jsval \<Rightarrow> bool" where
  "native_boolean (JBool b) = True"
| "native_boolean _ = False"

fun native_number :: "jsval \<Rightarrow> bool" where
  "native_number (JNum a) = True"
| "native_number _ = False"

fun native_date :: "jsval \<Rightarrow> bool" where
  "native_date (JDate i t) = True"
| "native_date _ = False"

section \<open>Concrete inputs\<close>

text \<open>
  The engine used with the concrete inputs. It prints an integer as its decimal numeral
  (as \<^verbatim>\<open>String\<close> does below \<open>10^21\<close>), the inherited members as V8 does, and the date of
  time value 0 as V8 does in the time zone UTC; the concrete inputs hold no other valid
  date and no number that is not an integer. Of the strings it takes for valid dates those
  of the form \<^verbatim>\<open>YYYY-MM-DD\<close> with a month from 01 to 12 and a day from 01 to 28, and three
  strings in the format of \<^verbatim>\<open>toUTCString\<close>, which every engine has to parse; the other
  strings of the concrete inputs are words and numerals that are not examined for dates.
\<close>

definition iso_date :: "string \<Rightarrow> bool" where
  "iso_date s =
     (length s = 10 \<and> s ! 4 = CHR ''-'' \<and> s ! 7 = CHR ''-'' \<and>
      list_all is_digit (take 4 s) \<and> list_all is_digit (take 2 (drop 5 s)) \<and>
      list_all is_digit (drop 8 s) \<and>
      1 \<le> digits_val (take 2 (drop 5 s)) \<and> digits_val (take 2 (drop 5 s)) \<le> 12 \<and>
      1 \<le> digits_val (drop 8 s) \<and> digits_val (drop 8 s) \<le> 28)"

definition utc_dates :: "string list" where
  "utc_dates =
     [''Mon, 15 Jan 2024 00:00:00 GMT'', ''Thu, 01 Feb 2024 00:00:00 GMT'',
      ''Mon, 25 Dec 2023 00:00:00 GMT'']"

definition reference_engine :: engine where
  "reference_engine =
     \<lparr>number_text = (\<lambda>a. if a < 0 then CHR ''-'' # nat_to_string (nat \<lfloor>- a\<rfloor>) else nat_to_string (nat \<lfloor>a\<rfloor>)),
      date_text = (\<lambda>t. ''Thu Jan 01 1970 00:00:00 GMT+0000 (Coordinated Universal Time)''),
      member_text =
        (\<lambda>k. if k = ''constructor'' then '' Object() { [native code] }''
             else '' '' @ k @ ''() { [native code] }''),
      date_parses = (\<lambda>s. iso_date s \<or> s \<in> set utc_dates)\<rparr>"

text \<open>Columns for type detection.\<close>

definition bit_column :: "jsval list" where
  "bit_column = [JStr ''1'', JStr ''0'', JStr ''1'']"

definition currency_column :: "jsval list" where
  "currency_column =
     [JStr ''$1,000'', JStr ''2'', JStr ''3.5'', JNum (Fin 7), JNull, JStr ''12'', JStr ''x'']"

definition four_of_five :: "jsval list" where
  "four_of_five = [JStr ''2'', JStr ''3'', JStr ''4'', JStr ''5'', JStr ''x'']"

definition utc_column :: "jsval list" where
  "utc_column =
     [JStr ''Mon, 15 Jan 2024 00:00:00 GMT'', JStr ''Thu, 01 Feb 2024 00:00:00 GMT'',
      JStr [], JStr ''Mon, 25 Dec 2023 00:00:00 GMT'']"

definition iso_column :: "jsval list" where
  "iso_column = [JStr ''2024-01-15'', JStr ''2024-02-01'', JStr ''2023-12-25'']"

definition word_column :: "jsval list" where
  "word_column = [JStr ''x'', JStr ''y'', JNum (Fin 2)]"

definition yes_no_column :: "jsval list" where
  "yes_no_column = [JStr ''Yes'', JStr ''NO'', JBool True, JStr ''TRUE'', JStr ''false'', JUndefined]"

definition ab_rows :: "row list" where
  "ab_rows = [[''c'' \<mapsto> JStr ''A''], [''c'' \<mapsto> JStr ''A''], [''c'' \<mapsto> JStr ''B'']]"

definition tie_rows :: "row list" where
  "tie_rows = [[''c'' \<mapsto> JStr ''2''], [''c'' \<mapsto> JStr ''1'']]"

definition zero_rows :: "row list" where
  "zero_rows = [[''c'' \<mapsto> JNum (Fin 0)]]"

definition constructor_rows :: "row list" where
  "constructor_rows = [[''c'' \<mapsto> JStr ''constructor'']]"

definition proto_rows :: "row list" where
  "proto_rows = [[''c'' \<mapsto> JStr ''__proto__'']]"

definition falsy_rows :: "row list" where
  "falsy_rows =
     [[''x'' \<mapsto> JNum (Fin 0), ''y'' \<mapsto> JStr ''5''],
      [''x'' \<mapsto> JBool False, ''y'' \<mapsto> JStr ''6''],
      [''x'' \<mapsto> JStr [], ''y'' \<mapsto> JStr ''7'']]"

definition scatter_rows :: "row list" where
  "scatter_rows = [[''a'' \<mapsto> JStr ''abc'', ''b'' \<mapsto> JStr ''1'']]"

declare nat_to_string.simps [simp del]

section \<open>Branches of the column statistics\<close>

text \<open>
  The numeric branch sets the seven numeric fields; the text branch sets the mode (and, in
  the client, the average length).
\<close>

definition numeric_branch :: "ColumnStats \<Rightarrow> bool" where
  "numeric_branch s =
     (mean s \<noteq> None \<and> median s \<noteq> None \<and> min_val s \<noteq> None \<and> max_val s \<noteq> None \<and>
      range_val s \<noteq> None \<and> variance s \<noteq> None \<and> standardDeviation s \<noteq> None)"

definition no_numeric_field :: "ColumnStats \<Rightarrow> bool" where
  "no_numeric_field s =
     (mean s = None \<and> median s = None \<and> min_val s = None \<and> max_val s = None \<and>
      range_val s = None \<and> variance s = None \<and> standardDeviation s = None)"

text \<open>
  The cells that the server counts as numeric: a string, not empty, with a numeric prefix;
  a number other than NaN; a boolean; a valid date. The client strips \<open>$\<close> and \<open>,\<close> from
  a string first.
\<close>

fun numeric_cell :: "jsval \<Rightarrow> bool" where
  "numeric_cell (JStr s) = (s \<noteq> [] \<and> parseFloat_str s \<noteq> NaN)"
| "numeric_cell (JNum a) = (a \<noteq> NaN)"
| "numeric_cell (JBool b) = True"
| "numeric_cell (JDate i t) = (t \<noteq> None)"
| "numeric_cell _ = False"

fun numeric_cell_stripped :: "jsval \<Rightarrow> bool" where
  "numeric_cell_stripped (JStr s) = (s \<noteq> [] \<and> parseFloat_str (strip_currency s) \<noteq> NaN)"
| "numeric_cell_stripped (JNum a) = (a \<noteq> NaN)"
| "numeric_cell_stripped (JBool b) = True"
| "numeric_cell_stripped (JDate i t) = (t \<noteq> None)"
| "numeric_cell_stripped _ = False"




definition minority_numeric :: "jsval list" where
  "minority_numeric = [JStr ''1'', JStr ''a'', JStr ''b'']"


section \<open>Failures\<close>

text \<open>
  The two failures of the specification, and the inputs on which it wants them: a header
  list that is empty while there are rows, or a row that lacks a declared header; a
  chart request for a column that is not among the headers.
\<close>

datatype engine_error = StructuralInputError | UnknownColumnError

definition structurally_invalid :: "string list \<Rightarrow> row list \<Rightarrow> bool" where
  "structurally_invalid headers rows =
     ((headers = [] \<and> rows \<noteq> []) \<or> list_ex (\<lambda>r. list_ex (\<lambda>h. r h = None) headers) rows)"

definition unknown_column :: "string list \<Rightarrow> string \<Rightarrow> bool" where
  "unknown_column headers c = (c \<notin> set headers)"

text \<open>
  The outcome of a call, with a failure as a value. Neither \<^verbatim>\<open>calculateSummaryStats\<close> nor
  \<^verbatim>\<open>prepareBarChartData\<close> contains a \<^verbatim>\<open>throw\<close>, and every operation they apply is defined
  on every cell of the model: each call returns. The outcome that the specification wants
  is the failure on the inputs above.
\<close>

definition summary_outcome :: "string list \<Rightarrow> row list \<Rightarrow> engine_error + DatasetSummary" where
  "summary_outcome headers rows = Inr (calculateSummaryStats headers rows)"

definition bar_outcome ::
  "engine \<Rightarrow> row list \<Rightarrow> string \<Rightarrow> string \<Rightarrow> int option \<Rightarrow> engine_error + ChartDataPoint list" where
  "bar_outcome eng data xColumn yColumn limit = Inr (prepareBarChartData eng data xColumn yColumn limit)"

definition summary_as_claimed :: "string list \<Rightarrow> row list \<Rightarrow> engine_error + DatasetSummary" where
  "summary_as_claimed headers rows =
     (if structurally_invalid headers rows then Inl StructuralInputError
      else Inr (calculateSummaryStats headers rows))"

definition bar_as_claimed ::
  "engine \<Rightarrow> string list \<Rightarrow> row list \<Rightarrow> string \<Rightarrow> string \<Rightarrow> int option \<Rightarrow>
     engine_error + ChartDataPoint list" where
  "bar_as_claimed eng headers data xColumn yColumn limit =
     (if unknown_column headers xColumn \<or> unknown_column headers yColumn then Inl UnknownColumnError
      else Inr (prepareBarChartData eng data xColumn yColumn limit))"

text \<open>The cells that count as missing, and their number in a column.\<close>

definition blank_cell :: "jsval \<Rightarrow> bool" where
  "blank_cell v = (v = JNull \<or> v = JUndefined \<or> v = JStr [])"

definition missing_in_column :: "row list \<Rightarrow> string \<Rightarrow> nat" where
  "missing_in_column rows h = length (filter (\<lambda>r. blank_cell (cell r h)) rows)"

text \<open>A column that no row has, and that no row inherits.\<close>

definition absent_column :: "row list \<Rightarrow> string \<Rightarrow> bool" where
  "absent_column data c = (plain_key c \<and> list_all (\<lambda>r. r c = None) data)"

text \<open>Forty rows of one column, of which seventeen lack a value.\<close>

definition gap_rows :: "row list" where
  "gap_rows = replicate 23 [''a'' \<mapsto> JNum (Fin 1)] @ replicate 17 [''a'' \<mapsto> JNull]"

definition one_row :: "row list" where
  "one_row = [[''a'' \<mapsto> JStr ''1'']]"

section \<open>Evaluation lemmas\<close>

lemmas parseFloat_defs =
  parseFloat_str_def parse_magnitude_def parse_unsigned_def is_space_def
  is_digit_def digits_val_def digit_val_def parse_exponent_def scale10_def

lemma sales_column: "map (\<lambda>r. cell r ''Sales'') sales_rows = [JStr ''100'', JStr ''200'', JNull]"
  by (simp add: sales_rows_def cell_def)

lemma region_column:
  "map (\<lambda>r. cell r ''Region'') sales_rows = [JStr ''East'', JStr ''East'', JStr ''West'']"
  by (simp add: sales_rows_def cell_def)

lemma sales_nums:
  "numericValues [JStr ''100'', JStr ''200'', JNull] = [JNum (Fin 100), JNum (Fin 200)]"
  by (simp add: numericValues_def nonNull_def parse_string_def isNaN_def parseFloat_defs)

lemma region_nums: "numericValues [JStr ''East'', JStr ''East'', JStr ''West''] = []"
  by (simp add: numericValues_def nonNull_def parse_string_def isNaN_def parseFloat_defs)

lemma sales_len: "length sales_rows = 3"
  by (simp add: sales_rows_def)

lemma sqrt_2500: "sqrt 2500 = 50"
  by (rule real_sqrt_unique) simp_all

lemma sales_stats:
  "calculateColumnStatistics eng (map (\<lambda>r. cell r ''Sales'') sales_rows) =
     \<lparr>count = 3, nullCount = 1, uniqueCount = 2, mean = Some (Fin 150),
      min_val = Some (JNum (Fin 100)), max_val = Some (JNum (Fin 200)),
      range_val = Some (Fin 100), median = Some (JNum (Fin 150)),
      variance = Some (Fin 2500), standardDeviation = Some (Fin 50),
      mode = None, averageLength = None\<rparr>"
  by (simp add: sales_column calculateColumnStatistics_def sales_nums numericStats_def
      baseStats_def nonNull_def Let_def Array_sort_def by_difference_def jsub_def
      Math_pow2_def sqrt_2500 js_plus_def)

lemma pow2_powr: "pow2 e = 2 powr (of_int e)"
proof (cases "0 \<le> e")
  case True
  then show ?thesis
    by (simp add: pow2_def powr_realpow [symmetric])
next
  case False
  have "(2::real) ^ nat (- e) = 2 powr real (nat (- e))"
    by (simp add: powr_realpow)
  also have "real (nat (- e)) = - of_int e"
    using False by simp
  finally have "(2::real) ^ nat (- e) = 2 powr (- of_int e)" .
  with False show ?thesis
    by (simp add: pow2_def powr_minus_divide)
qed

text \<open>The double nearest to a positive real whose binary exponent is known.\<close>

lemma to_double_eval:
  assumes "0 < a" and "pow2 e \<le> a" and "a < pow2 (e + 1)"
    and "round_half_even (a / pow2 (e - 52)) = n"
  shows "to_double a = of_int n * pow2 (e - 52)"
proof -
  have "of_int e \<le> log 2 a"
    using assms(1,2) by (simp add: pow2_powr le_log_iff)
  moreover have "log 2 a < of_int e + 1"
    using assms(1,3) by (simp add: pow2_powr log_less_iff)
  ultimately have "\<lfloor>log 2 a\<rfloor> = e" by linarith
  with assms(1,4) show ?thesis by (simp add: to_double_def)
qed

lemma to_double_0 [simp]: "to_double 0 = 0"
  by (simp add: to_double_def)

lemma to_double_1 [simp]: "to_double 1 = 1"
  using to_double_eval [of 1 0 "2 ^ 52"] by (simp add: pow2_def round_half_even_def)

lemma to_double_100 [simp]: "to_double 100 = 100"
  using to_double_eval [of 100 6 "100 * 2 ^ 46"] by (simp add: pow2_def round_half_even_def)

lemma five_sixths: "to_double (5 / 6) = 7505999378950827 * pow2 (- 53)"
  using to_double_eval [of "5 / 6" "- 1" 7505999378950827]
  by (simp add: pow2_def round_half_even_def)

lemma five_sixths_100:
  "to_double (7505999378950827 * pow2 (- 53) * 100) = 5864062014805334 * pow2 (- 46)"
  using to_double_eval [of "7505999378950827 * pow2 (- 53) * 100" 6 5864062014805334]
  by (simp add: pow2_def round_half_even_def)

lemma quality_eval:
  assumes "to_double (a / b) = q" and "to_double (q * 100) = p" and "b \<noteq> 0"
  shows "Math_round (rounded (jmul (rounded (jdiv (Fin a) (Fin b))) (Fin 100))) =
           Fin (of_int \<lfloor>p + 1 / 2\<rfloor>)"
  using assms by simp

lemma sales_quality:
  "Math_round (rounded (jmul (rounded (jdiv (Fin 5) (Fin 6))) (Fin 100))) = Fin 83"
  using quality_eval [OF five_sixths five_sixths_100] by (simp add: pow2_def)

lemma sales_summary:
  "calculateSummaryStats [''Region'', ''Sales''] sales_rows =
     \<lparr>totalRecords = 3, totalColumns = 2, numericColumns = 1, textColumns = 1,
      missingValues = 1, dataQuality = Fin 83\<rparr>"
  using sales_quality
  by (simp add: calculateSummaryStats_def summary_step_def sales_column region_column
      sales_nums region_nums nonNull_def Let_def sales_len)

text \<open>A column that is not sorted, and a string that begins with blanks.\<close>

lemma unsorted_stats:
  "min_val (calculateColumnStatistics eng [JStr ''30'', JStr ''10'', JNum (Fin 20), JStr '' 40'']) =
     Some (JNum (Fin 10)) \<and>
   max_val (calculateColumnStatistics eng [JStr ''30'', JStr ''10'', JNum (Fin 20), JStr '' 40'']) =
     Some (JNum (Fin 40)) \<and>
   median (calculateColumnStatistics eng [JStr ''30'', JStr ''10'', JNum (Fin 20), JStr '' 40'']) =
     Some (JNum (Fin 25)) \<and>
   mean (calculateColumnStatistics eng [JStr ''30'', JStr ''10'', JNum (Fin 20), JStr '' 40'']) =
     Some (Fin 25)"
  by (simp add: calculateColumnStatistics_def numericValues_def numericStats_def baseStats_def
      nonNull_def parse_string_def isNaN_def parseFloat_defs Let_def Array_sort_def
      by_difference_def jsub_def js_plus_def)

section \<open>C1: the scenario of the specification\<close>

text \<open>
  C1. For the dataset with headers Region, Sales and the rows (East, "100"), (East, "200"),
  (West, null), the statistics of the column Sales are count 3, nullCount 1, mean 150,
  min 100, max 200, median 150, variance 2500 and standardDeviation 50, and the summary
  of the dataset is totalRecords 3, totalColumns 2, missingValues 1 and dataQuality 83.
\<close>

theorem C1_sales_scenario:
  "count (calculateColumnStatistics eng (map (\<lambda>r. cell r ''Sales'') sales_rows)) = 3 \<and>
   nullCount (calculateColumnStatistics eng (map (\<lambda>r. cell r ''Sales'') sales_rows)) = 1 \<and>
   mean (calculateColumnStatistics eng (map (\<lambda>r. cell r ''Sales'') sales_rows)) = Some (Fin 150) \<and>
   min_val (calculateColumnStatistics eng (map (\<lambda>r. cell r ''Sales'') sales_rows)) = Some (JNum (Fin 100)) \<and>
   max_val (calculateColumnStatistics eng (map (\<lambda>r. cell r ''Sales'') sales_rows)) = Some (JNum (Fin 200)) \<and>
   median (calculateColumnStatistics eng (map (\<lambda>r. cell r ''Sales'') sales_rows)) = Some (JNum (Fin 150)) \<and>
   variance (calculateColumnStatistics eng (map (\<lambda>r. cell r ''Sales'') sales_rows)) = Some (Fin 2500) \<and>
   standardDeviation (calculateColumnStatistics eng (map (\<lambda>r. cell r ''Sales'') sales_rows)) = Some (Fin 50) \<and>
   totalRecords (calculateSummaryStats [''Region'', ''Sales''] sales_rows) = 3 \<and>
   totalColumns (calculateSummaryStats [''Region'', ''Sales''] sales_rows) = 2 \<and>
   missingValues (calculateSummaryStats [''Region'', ''Sales''] sales_rows) = 1 \<and>
   dataQuality (calculateSummaryStats [''Region'', ''Sales''] sales_rows) = Fin 83"
  unfolding sales_stats sales_summary by simp

section \<open>C5: the choice of a chart type\<close>

lemma isNaN_num_iff: "isNaN_num a \<longleftrightarrow> a = NaN"
  by (cases a) simp_all

lemma getOptimalChartType_cascade:
  "getOptimalChartType data xc yc =
     (if data = [] then Bar
      else if numeric_fraction (column data xc) > 0.8 \<and> numeric_fraction (column data yc) > 0.8 \<and>
              length data > 20
      then Scatter
      else if unique_fraction (column data xc) < 0.5 \<and> numeric_fraction (column data yc) > 0.8 then Bar
      else if numeric_fraction (column data xc) > 0.8 \<and> numeric_fraction (column data yc) > 0.8 then Line
      else if 1 < card (set (column data xc)) \<and> card (set (column data xc)) < 10 then Pie
      else Bar)"
proof (cases "data = []")
  case True
  then show ?thesis by (simp add: getOptimalChartType_def)
next
  case False
  then have pos: "0 < real (length data)" by simp
  have uniq: "unique_fraction (column data xc) < 0.5 \<longleftrightarrow>
      real (length (remdups (column data xc))) < real (length data) * 0.5"
    using pos by (simp add: unique_fraction_def column_def length_remdups_card_conv divide_less_eq)
  show ?thesis
    using False unfolding uniq
    by (simp add: getOptimalChartType_def Let_def numeric_fraction_def column_def isNaN_num_iff
        length_remdups_card_conv)
qed

text \<open>
  C5. The selector is the ordered cascade: no rows give bar; else both numeric fractions
  above 0.8 and more than 20 rows give scatter; else a fraction of distinct x values below
  0.5 and a y numeric fraction above 0.8 give bar; else both numeric fractions above 0.8
  give line; else a number of distinct x values strictly between 1 and 10 gives pie; else
  bar. In particular thirty rows whose two columns parse as numbers at least 90% of the
  time give scatter.
\<close>

theorem C5_getOptimalChartType_cascade:
  "getOptimalChartType data xc yc =
     (if data = [] then Bar
      else if numeric_fraction (column data xc) > 0.8 \<and> numeric_fraction (column data yc) > 0.8 \<and>
              length data > 20
      then Scatter
      else if unique_fraction (column data xc) < 0.5 \<and> numeric_fraction (column data yc) > 0.8 then Bar
      else if numeric_fraction (column data xc) > 0.8 \<and> numeric_fraction (column data yc) > 0.8 then Line
      else if 1 < card (set (column data xc)) \<and> card (set (column data xc)) < 10 then Pie
      else Bar) \<and>
   (length data = 30 \<and> numeric_fraction (column data xc) \<ge> 0.9 \<and>
    numeric_fraction (column data yc) \<ge> 0.9
      \<longrightarrow> getOptimalChartType data xc yc = Scatter)"
proof
  show "getOptimalChartType data xc yc =
     (if data = [] then Bar
      else if numeric_fraction (column data xc) > 0.8 \<and> numeric_fraction (column data yc) > 0.8 \<and>
              length data > 20
      then Scatter
      else if unique_fraction (column data xc) < 0.5 \<and> numeric_fraction (column data yc) > 0.8 then Bar
      else if numeric_fraction (column data xc) > 0.8 \<and> numeric_fraction (column data yc) > 0.8 then Line
      else if 1 < card (set (column data xc)) \<and> card (set (column data xc)) < 10 then Pie
      else Bar)"
    by (rule getOptimalChartType_cascade)
  show "length data = 30 \<and> numeric_fraction (column data xc) \<ge> 0.9 \<and>
    numeric_fraction (column data yc) \<ge> 0.9
      \<longrightarrow> getOptimalChartType data xc yc = Scatter"
  proof
    assume h: "length data = 30 \<and> numeric_fraction (column data xc) \<ge> 0.9 \<and>
      numeric_fraction (column data yc) \<ge> 0.9"
    then have "data \<noteq> []" by auto
    with h show "getOptimalChartType data xc yc = Scatter"
      by (simp add: getOptimalChartType_cascade)
  qed
qed

lemma numeric_rows_x: "numeric_fraction (column numeric_rows ''x'') = 0.9"
  by (simp add: numeric_fraction_def column_def numeric_rows_def cell_def parseFloat_defs)

lemma numeric_rows_y: "numeric_fraction (column numeric_rows ''y'') = 0.9"
  by (simp add: numeric_fraction_def column_def numeric_rows_def cell_def parseFloat_defs)

theorem C5_scatter_witness:
  "length numeric_rows = 30 \<and> numeric_fraction (column numeric_rows ''x'') \<ge> 0.9 \<and>
   numeric_fraction (column numeric_rows ''y'') \<ge> 0.9 \<and>
   getOptimalChartType numeric_rows ''x'' ''y'' = Scatter"
proof -
  have h: "length numeric_rows = 30 \<and> numeric_fraction (column numeric_rows ''x'') \<ge> 0.9 \<and>
      numeric_fraction (column numeric_rows ''y'') \<ge> 0.9"
    by (simp add: numeric_rows_x numeric_rows_y) (simp add: numeric_rows_def)
  with C5_getOptimalChartType_cascade [of numeric_rows "''x''" "''y''"] show ?thesis
    by blast
qed

section \<open>C7: type detection\<close>

lemma nonNull_idem: "nonNull (nonNull vs) = nonNull vs"
  by (simp add: nonNull_def)

lemma looks_boolean_bit: "v \<in> {JStr ''1'', JStr ''0''} \<Longrightarrow> looks_boolean v"
  by (auto simp: toLowerCase_def lower_char_def)

lemma nonNull_bits: "set vs \<subseteq> {JStr ''1'', JStr ''0''} \<Longrightarrow> nonNull vs = vs"
  unfolding nonNull_def by (rule filter_True) auto

lemma boolean_bits: "set vs \<subseteq> {JStr ''1'', JStr ''0''} \<Longrightarrow> filter looks_boolean vs = vs"
  by (rule filter_True) (use looks_boolean_bit in blast)

lemma more_than_four_fifths: "vs \<noteq> [] \<Longrightarrow> real (length vs) > real (length vs) * 0.8"
  by simp

lemma detect_bits:
  assumes "vs \<noteq> []" and "set vs \<subseteq> {JStr ''1'', JStr ''0''}"
  shows "detectColumnType eng vs = Boolean"
  using assms more_than_four_fifths [OF assms(1)]
  by (simp add: detectColumnType_def Let_def nonNull_bits boolean_bits)

text \<open>A column of values of one kind.\<close>

lemma native_boolean_entry:
  "native_boolean v \<Longrightarrow> looks_boolean v \<and> v \<noteq> JNull \<and> v \<noteq> JUndefined \<and> v \<noteq> JStr []"
  by (cases v) simp_all

lemma native_number_entry:
  "native_number v \<Longrightarrow>
     \<not> looks_boolean v \<and> looks_numeric v \<and> v \<noteq> JNull \<and> v \<noteq> JUndefined \<and> v \<noteq> JStr []"
  by (cases v) simp_all

lemma native_date_entry:
  "native_date v \<Longrightarrow>
     \<not> looks_boolean v \<and> \<not> looks_numeric v \<and> looks_date eng v \<and>
     v \<noteq> JNull \<and> v \<noteq> JUndefined \<and> v \<noteq> JStr []"
  by (cases v) simp_all

lemma native_boolean_column:
  assumes "list_all native_boolean vs"
  shows "nonNull vs = vs" and "filter looks_boolean vs = vs"
proof -
  have k: "\<And>v. v \<in> set vs \<Longrightarrow> native_boolean v"
    using assms by (simp add: list_all_iff)
  show "nonNull vs = vs"
    unfolding nonNull_def using native_boolean_entry [OF k] by (intro filter_True) blast
  show "filter looks_boolean vs = vs"
    using native_boolean_entry [OF k] by (intro filter_True) blast
qed

lemma native_number_column:
  assumes "list_all native_number vs"
  shows "nonNull vs = vs" and "filter looks_boolean vs = []" and "filter looks_numeric vs = vs"
proof -
  have k: "\<And>v. v \<in> set vs \<Longrightarrow> native_number v"
    using assms by (simp add: list_all_iff)
  show "nonNull vs = vs"
    unfolding nonNull_def using native_number_entry [OF k] by (intro filter_True) blast
  show "filter looks_boolean vs = []"
    using native_number_entry [OF k] by (simp add: filter_empty_conv)
  show "filter looks_numeric vs = vs"
    using native_number_entry [OF k] by (intro filter_True) blast
qed

lemma native_date_column:
  assumes "list_all native_date vs"
  shows "nonNull vs = vs" and "filter looks_boolean vs = []" and "filter looks_numeric vs = []"
    and "filter (looks_date eng) vs = vs"
proof -
  have k: "\<And>v. v \<in> set vs \<Longrightarrow> native_date v"
    using assms by (simp add: list_all_iff)
  show "nonNull vs = vs"
    unfolding nonNull_def using native_date_entry [OF k] by (intro filter_True) blast
  show "filter looks_boolean vs = []"
    using native_date_entry [OF k] by (simp add: filter_empty_conv)
  show "filter looks_numeric vs = []"
    using native_date_entry [OF k] by (simp add: filter_empty_conv)
  show "filter (looks_date eng) vs = vs"
    using native_date_entry [OF k] by (intro filter_True) blast
qed

lemma detect_native_boolean:
  assumes "vs \<noteq> []" and "list_all native_boolean vs"
  shows "detectColumnType eng vs = Boolean"
  using assms(1) more_than_four_fifths [OF assms(1)]
  by (simp add: detectColumnType_def Let_def native_boolean_column [OF assms(2)])

lemma detect_native_number:
  assumes "vs \<noteq> []" and "list_all native_number vs"
  shows "detectColumnType eng vs = Number"
  using assms(1) more_than_four_fifths [OF assms(1)]
  by (simp add: detectColumnType_def Let_def native_number_column [OF assms(2)])

lemma detect_native_date:
  assumes "vs \<noteq> []" and "list_all native_date vs"
  shows "detectColumnType eng vs = Date"
  using assms(1) more_than_four_fifths [OF assms(1)]
  by (simp add: detectColumnType_def Let_def native_date_column [OF assms(2)])

text \<open>
  C7. Type detection first discards the null, undefined and empty-string entries and
  answers text when none remains; otherwise it applies the boolean, the number and the
  date check in this order, each firing when its matching count strictly exceeds 0.8
  times the number of remaining entries, and answers text when none fires. A column made
  only of the strings "1" and "0" is boolean, not number; a column of booleans is boolean,
  a column of numbers is number, and a column of \<^verbatim>\<open>Date\<close> objects is date.
\<close>

theorem C7_detectColumnType_cascade:
  "(nonNull vs = [] \<longrightarrow> detectColumnType eng vs = Text) \<and>
   (nonNull vs \<noteq> [] \<longrightarrow>
      detectColumnType eng vs =
        (if real (length (filter looks_boolean (nonNull vs))) > 0.8 * real (length (nonNull vs))
         then Boolean
         else if real (length (filter looks_numeric (nonNull vs))) > 0.8 * real (length (nonNull vs))
         then Number
         else if real (length (filter (looks_date eng) (nonNull vs))) > 0.8 * real (length (nonNull vs))
         then Date
         else Text)) \<and>
   detectColumnType eng vs = detectColumnType eng (nonNull vs) \<and>
   (vs \<noteq> [] \<and> set vs \<subseteq> {JStr ''1'', JStr ''0''} \<longrightarrow>
      detectColumnType eng vs = Boolean \<and> detectColumnType eng vs \<noteq> Number) \<and>
   (vs \<noteq> [] \<and> list_all native_boolean vs \<longrightarrow> detectColumnType eng vs = Boolean) \<and>
   (vs \<noteq> [] \<and> list_all native_number vs \<longrightarrow> detectColumnType eng vs = Number) \<and>
   (vs \<noteq> [] \<and> list_all native_date vs \<longrightarrow> detectColumnType eng vs = Date)"
proof (intro conjI impI)
  show "detectColumnType eng vs = detectColumnType eng (nonNull vs)"
    by (simp add: detectColumnType_def nonNull_idem)
next
  assume "vs \<noteq> [] \<and> set vs \<subseteq> {JStr ''1'', JStr ''0''}"
  then show "detectColumnType eng vs = Boolean" by (simp add: detect_bits)
  then show "detectColumnType eng vs \<noteq> Number" by simp
next
  assume "vs \<noteq> [] \<and> list_all native_boolean vs"
  then show "detectColumnType eng vs = Boolean" by (simp add: detect_native_boolean)
next
  assume "vs \<noteq> [] \<and> list_all native_number vs"
  then show "detectColumnType eng vs = Number" by (simp add: detect_native_number)
next
  assume "vs \<noteq> [] \<and> list_all native_date vs"
  then show "detectColumnType eng vs = Date" by (simp add: detect_native_date)
qed (simp_all add: detectColumnType_def Let_def mult.commute)

lemmas detect_defs =
  nonNull_def toLowerCase_def lower_char_def strip_currency_def parseFloat_defs
  reference_engine_def iso_date_def utc_dates_def isNaN_num_iff

theorem C7_detectColumnType_witness:
  "nonNull [JNull, JStr [], JUndefined] = [] \<and>
   detectColumnType reference_engine [JNull, JStr [], JUndefined] = Text \<and>
   bit_column \<noteq> [] \<and> set bit_column \<subseteq> {JStr ''1'', JStr ''0''} \<and>
   detectColumnType reference_engine bit_column = Boolean \<and>
   [JBool True, JBool False] \<noteq> [] \<and> list_all native_boolean [JBool True, JBool False] \<and>
   detectColumnType reference_engine [JBool True, JBool False] = Boolean \<and>
   [JNum (Fin 3), JNum NaN] \<noteq> [] \<and> list_all native_number [JNum (Fin 3), JNum NaN] \<and>
   detectColumnType reference_engine [JNum (Fin 3), JNum NaN] = Number \<and>
   [JDate 0 (Some 0), JDate 1 None] \<noteq> [] \<and> list_all native_date [JDate 0 (Some 0), JDate 1 None] \<and>
   detectColumnType reference_engine [JDate 0 (Some 0), JDate 1 None] = Date \<and>
   nonNull currency_column \<noteq> [] \<and>
   detectColumnType reference_engine currency_column = Number \<and>
   detectColumnType reference_engine four_of_five = Text \<and>
   detectColumnType reference_engine yes_no_column = Boolean \<and>
   detectColumnType reference_engine utc_column = Date \<and>
   detectColumnType reference_engine iso_column = Number \<and>
   detectColumnType reference_engine word_column = Text"
proof -
  have h1: "nonNull [JNull, JStr [], JUndefined] = []"
    by (simp add: nonNull_def)
  have h2: "bit_column \<noteq> [] \<and> set bit_column \<subseteq> {JStr ''1'', JStr ''0''}"
    by (simp add: bit_column_def)
  have h3: "[JBool True, JBool False] \<noteq> [] \<and> list_all native_boolean [JBool True, JBool False]"
    by simp
  have h4: "[JNum (Fin 3), JNum NaN] \<noteq> [] \<and> list_all native_number [JNum (Fin 3), JNum NaN]"
    by simp
  have h5: "[JDate 0 (Some 0), JDate 1 None] \<noteq> [] \<and>
      list_all native_date [JDate 0 (Some 0), JDate 1 None]"
    by simp
  have h6: "nonNull currency_column \<noteq> []" "nonNull four_of_five \<noteq> []" "nonNull yes_no_column \<noteq> []"
    "nonNull utc_column \<noteq> []" "nonNull iso_column \<noteq> []" "nonNull word_column \<noteq> []"
    by (simp_all add: nonNull_def currency_column_def four_of_five_def yes_no_column_def
        utc_column_def iso_column_def word_column_def)
  have r1: "detectColumnType reference_engine [JNull, JStr [], JUndefined] = Text"
    using C7_detectColumnType_cascade [of "[JNull, JStr [], JUndefined]" reference_engine] h1
    by blast
  have r2: "detectColumnType reference_engine bit_column = Boolean"
    using C7_detectColumnType_cascade [of bit_column reference_engine] h2 by blast
  have r3: "detectColumnType reference_engine [JBool True, JBool False] = Boolean"
    using C7_detectColumnType_cascade [of "[JBool True, JBool False]" reference_engine] h3 by blast
  have r4: "detectColumnType reference_engine [JNum (Fin 3), JNum NaN] = Number"
    using C7_detectColumnType_cascade [of "[JNum (Fin 3), JNum NaN]" reference_engine] h4 by blast
  have r5: "detectColumnType reference_engine [JDate 0 (Some 0), JDate 1 None] = Date"
    using C7_detectColumnType_cascade [of "[JDate 0 (Some 0), JDate 1 None]" reference_engine] h5
    by blast
  have r6: "detectColumnType reference_engine currency_column = Number"
    using C7_detectColumnType_cascade [of currency_column reference_engine] h6(1)
    by (simp add: currency_column_def detect_defs)
  have r7: "detectColumnType reference_engine four_of_five = Text"
    using C7_detectColumnType_cascade [of four_of_five reference_engine] h6(2)
    by (simp add: four_of_five_def detect_defs)
  have r8: "detectColumnType reference_engine yes_no_column = Boolean"
    using C7_detectColumnType_cascade [of yes_no_column reference_engine] h6(3)
    by (simp add: yes_no_column_def detect_defs)
  have r9: "detectColumnType reference_engine utc_column = Date"
    using C7_detectColumnType_cascade [of utc_column reference_engine] h6(4)
    by (simp add: utc_column_def detect_defs)
  have r10: "detectColumnType reference_engine iso_column = Number"
    using C7_detectColumnType_cascade [of iso_column reference_engine] h6(5)
    by (simp add: iso_column_def detect_defs)
  have r11: "detectColumnType reference_engine word_column = Text"
    using C7_detectColumnType_cascade [of word_column reference_engine] h6(6)
    by (simp add: word_column_def detect_defs)
  from h1 h2 h3 h4 h5 h6(1) r1 r2 r3 r4 r5 r6 r7 r8 r9 r10 r11 show ?thesis by blast
qed

section \<open>Counters, key order and sorting\<close>

lemma set_first_seen [simp]: "set (first_seen xs) = set xs"
  by (induction xs) auto

lemma distinct_first_seen [simp]: "distinct (first_seen xs)"
  by (induction xs) auto

lemma first_seen_snoc:
  "first_seen (xs @ [a]) = (if a \<in> set xs then first_seen xs else first_seen xs @ [a])"
  by (induction xs) auto

lemma length_first_seen: "length (first_seen xs) \<le> length xs"
  using distinct_card [of "first_seen xs"] card_length [of xs] by simp

lemma bump_present:
  "distinct ks \<Longrightarrow> k \<in> set ks \<Longrightarrow>
     bump eng (map (\<lambda>j. (j, c j)) ks) k = map (\<lambda>j. (j, if j = k then plus_one (c j) else c j)) ks"
  by (induction ks) auto

lemma bump_absent:
  "k \<notin> set ks \<Longrightarrow> bump eng (map (\<lambda>j. (j, c j)) ks) k = map (\<lambda>j. (j, c j)) ks @ bump eng [] k"
  by (induction ks) auto

lemma count_keys_snoc: "count_keys eng (ks @ [k]) = bump eng (count_keys eng ks) k"
  by (simp add: count_keys_def)

lemma proto_not_plain: "\<not> plain_key ''__proto__''"
  by (simp add: plain_key_def proto_members_def)

lemma counted_other: "j \<noteq> k \<Longrightarrow> counted eng (ks @ [k]) j = counted eng ks j"
  by (simp add: counted_def)

lemma counted_again: "counted eng (ks @ [k]) k = plus_one (counted eng ks k)"
  by (simp add: counted_def replicate_append_same)

lemma counted_first:
  "k \<notin> set ks \<Longrightarrow> k \<noteq> ''__proto__'' \<Longrightarrow> bump eng [] k = [(k, counted eng (ks @ [k]) k)]"
  by (simp add: counted_def plain_key_def)

text \<open>
  The counter after the keys \<open>ks\<close>: one property for each key other than \<^verbatim>\<open>__proto__\<close>, in
  the order of the first occurrences.
\<close>

lemma count_keys_eq:
  "count_keys eng ks =
     map (\<lambda>k. (k, counted eng ks k)) (filter (\<lambda>k. k \<noteq> ''__proto__'') (first_seen ks))"
proof (induction ks rule: rev_induct)
  case Nil
  show ?case by (simp add: count_keys_def)
next
  case (snoc k ks)
  let ?F = "filter (\<lambda>k. k \<noteq> ''__proto__'') (first_seen ks)"
  have d: "distinct ?F" by simp
  show ?case
  proof (cases "k = ''__proto__''")
    case True
    then have "k \<notin> set ?F" by simp
    then have "bump eng (map (\<lambda>j. (j, counted eng ks j)) ?F) k =
        map (\<lambda>j. (j, counted eng ks j)) ?F @ bump eng [] k"
      by (rule bump_absent)
    also have "\<dots> = map (\<lambda>j. (j, counted eng ks j)) ?F"
      using True by simp
    also have "\<dots> = map (\<lambda>j. (j, counted eng (ks @ [k]) j)) ?F"
      using True by (intro map_cong refl) (simp add: counted_other)
    finally show ?thesis
      using True by (simp add: count_keys_snoc snoc.IH first_seen_snoc)
  next
    case False
    show ?thesis
    proof (cases "k \<in> set ks")
      case True
      with False have "k \<in> set ?F" by simp
      with d have "bump eng (map (\<lambda>j. (j, counted eng ks j)) ?F) k =
          map (\<lambda>j. (j, if j = k then plus_one (counted eng ks j) else counted eng ks j)) ?F"
        by (rule bump_present)
      also have "\<dots> = map (\<lambda>j. (j, counted eng (ks @ [k]) j)) ?F"
        by (intro map_cong refl) (simp add: counted_other counted_again)
      finally show ?thesis
        using True by (simp add: count_keys_snoc snoc.IH first_seen_snoc)
    next
      case absent: False
      then have "k \<notin> set ?F" by simp
      then have b: "bump eng (map (\<lambda>j. (j, counted eng ks j)) ?F) k =
          map (\<lambda>j. (j, counted eng ks j)) ?F @ bump eng [] k"
        by (rule bump_absent)
      have m: "map (\<lambda>j. (j, counted eng ks j)) ?F = map (\<lambda>j. (j, counted eng (ks @ [k]) j)) ?F"
        using absent by (intro map_cong refl) (auto simp: counted_def)
      have "count_keys eng (ks @ [k]) = bump eng (map (\<lambda>j. (j, counted eng ks j)) ?F) k"
        by (simp add: count_keys_snoc snoc.IH)
      also have "\<dots> = map (\<lambda>j. (j, counted eng ks j)) ?F @ bump eng [] k"
        by (rule b)
      also have "\<dots> = map (\<lambda>j. (j, counted eng (ks @ [k]) j)) ?F @ [(k, counted eng (ks @ [k]) k)]"
        by (simp only: m counted_first [OF absent False])
      also have "\<dots> = map (\<lambda>j. (j, counted eng (ks @ [k]) j))
          (filter (\<lambda>k. k \<noteq> ''__proto__'') (first_seen (ks @ [k])))"
        using absent False by (simp add: first_seen_snoc)
      finally show ?thesis .
    qed
  qed
qed

lemma count_keys_plain:
  assumes "list_all plain_key ks"
  shows "count_keys eng ks = map (\<lambda>k. (k, Count (count_list ks k))) (first_seen ks)"
proof -
  from assms have p: "\<And>k. k \<in> set ks \<Longrightarrow> plain_key k" by (simp add: list_all_iff)
  then have "filter (\<lambda>k. k \<noteq> ''__proto__'') (first_seen ks) = first_seen ks"
    using proto_not_plain by (intro filter_True) auto
  moreover have "map (\<lambda>k. (k, counted eng ks k)) (first_seen ks) =
      map (\<lambda>k. (k, Count (count_list ks k))) (first_seen ks)"
    using p by (intro map_cong refl) (simp add: counted_def)
  ultimately show ?thesis by (simp add: count_keys_eq)
qed

lemma reduce_count_keys:
  "foldl (\<lambda>acc a. bump eng acc (f a)) [] xs = count_keys eng (map f xs)"
  by (simp add: count_keys_def foldl_map)

lemma insort_key_map:
  "insort_key f (g a) (map g bs) = map g (insort_key (\<lambda>b. f (g b)) a bs)"
  by (induction bs) auto

lemma sort_key_map: "sort_key f (map g xs) = map g (sort_key (\<lambda>b. f (g b)) xs)"
  by (induction xs) (simp_all add: insort_key_map)

lemma Object_entries_map:
  "Object_entries (map (\<lambda>k. (k, c k)) ks) = map (\<lambda>k. (k, c k)) (key_order ks)"
  by (simp add: Object_entries_def key_order_def filter_map o_def sort_key_map index_rank_def)

lemma insert_sorted_insort:
  assumes "\<And>a b. is_negative (cmp b a) \<longleftrightarrow> f b < f a"
  shows "insert_sorted cmp a bs = insort_key f a bs"
  by (induction bs) (auto simp: assms)

lemma Array_sort_sort_key:
  assumes "\<And>a b. is_negative (cmp b a) \<longleftrightarrow> (f b :: 'k :: linorder) < f a"
  shows "Array_sort cmp xs = sort_key f xs"
  by (induction xs) (simp_all add: Array_sort_def insert_sorted_insort [of cmp f, OF assms])

lemma insert_sorted_map:
  "insert_sorted cmp (g a) (map g bs) = map g (insert_sorted (\<lambda>x y. cmp (g x) (g y)) a bs)"
  by (induction bs) auto

lemma Array_sort_map:
  "Array_sort cmp (map g xs) = map g (Array_sort (\<lambda>x y. cmp (g x) (g y)) xs)"
  by (induction xs) (simp_all add: Array_sort_def insert_sorted_map)

lemma set_insert_sorted [simp]: "set (insert_sorted cmp a bs) = insert a (set bs)"
  by (induction bs) auto

lemma set_Array_sort [simp]: "set (Array_sort cmp xs) = set xs"
  by (induction xs) (simp_all add: Array_sort_def)

lemma length_insert_sorted [simp]: "length (insert_sorted cmp a bs) = Suc (length bs)"
  by (induction bs) auto

lemma length_Array_sort [simp]: "length (Array_sort cmp xs) = length xs"
  by (induction xs) (simp_all add: Array_sort_def)

lemma Array_sort_by_count:
  "Array_sort by_count_descending (map (\<lambda>k. (k, Count (f k))) ks) =
     map (\<lambda>k. (k, Count (f k))) (sort_key (\<lambda>k. - int (f k)) ks)"
proof -
  have "Array_sort (\<lambda>x y. by_count_descending (x, Count (f x)) (y, Count (f y))) ks =
      sort_key (\<lambda>k. - int (f k)) ks"
    by (rule Array_sort_sort_key) (simp add: by_count_descending_def jsub_def)
  then show ?thesis by (simp add: Array_sort_map)
qed

section \<open>C6: the pie projection\<close>

lemma slice0_map: "slice0 l (map g xs) = map g (slice0 l xs)"
  by (simp add: slice0_def take_map)

lemma pie_key_group_name:
  "jsToString eng (js_or (cell r c) (JStr ''Unknown'')) = group_name eng c r"
  by (simp add: js_or_def group_name_def)

text \<open>The projection on every input: the entries of the counter of the group names.\<close>

lemma preparePieChartData_entries:
  "preparePieChartData eng data c limit =
     map (\<lambda>(name, v). \<lparr>pt_name = name, pt_value = cval_value v, pt_x = None, pt_y = None\<rparr>)
       (slice0 (or_default 8 limit)
          (Array_sort by_count_descending
             (Object_entries (count_keys eng (map (group_name eng c) data)))))"
  by (simp add: preparePieChartData_def pie_key_group_name reduce_count_keys)

text \<open>The projection when every group name is a plain key.\<close>

lemma preparePieChartData_eq:
  assumes "list_all plain_key (map (group_name eng c) data)"
  shows "preparePieChartData eng data c limit =
     map (\<lambda>k. pie_point k (count_list (map (group_name eng c) data) k))
       (slice0 (or_default 8 limit) (pie_ranking (map (group_name eng c) data)))"
  by (simp add: preparePieChartData_entries count_keys_plain [OF assms]
      Object_entries_map Array_sort_by_count slice0_map pie_ranking_def pie_point_def o_def)

lemma set_key_order [simp]: "set (key_order ks) = set ks"
  by (auto simp: key_order_def)

lemma distinct_key_order [simp]: "distinct ks \<Longrightarrow> distinct (key_order ks)"
  by (auto simp: key_order_def)

lemma length_key_order [simp]: "length (key_order ks) = length ks"
  using sum_length_filter_compl [of "\<lambda>k. array_index k \<noteq> None" ks] by (simp add: key_order_def)

lemma set_pie_ranking [simp]: "set (pie_ranking keys) = set keys"
  by (simp add: pie_ranking_def)

lemma distinct_pie_ranking [simp]: "distinct (pie_ranking keys)"
  by (simp add: pie_ranking_def)

lemma distinct_slice0: "distinct xs \<Longrightarrow> distinct (slice0 l xs)"
  by (simp add: slice0_def)

lemma set_slice0: "set (slice0 l xs) \<subseteq> set xs"
  by (auto simp: slice0_def dest: in_set_takeD)

lemma length_slice0: "0 \<le> l \<Longrightarrow> length (slice0 l xs) \<le> nat l"
  by (simp add: slice0_def)

lemma sum_counts_le:
  assumes "distinct ks"
  shows "sum_list (map (count_list xs) ks) \<le> length xs"
proof -
  have "sum_list (map (count_list xs) ks) = sum (count_list xs) (set ks)"
    using assms by (simp add: sum_list_distinct_conv_sum_set)
  also have "\<dots> \<le> sum (count_list xs) (set ks \<union> set xs)"
    by (rule sum_mono2) auto
  also have "\<dots> = length xs"
    by (rule sum_count_set) auto
  finally show ?thesis .
qed

lemma sorted_pie_ranking:
  "sorted_wrt (\<lambda>j k. count_list keys k \<le> count_list keys j) (pie_ranking keys)"
proof -
  have "sorted (map (\<lambda>k. - int (count_list keys k)) (pie_ranking keys))"
    unfolding pie_ranking_def by (rule sorted_sort_key)
  then show ?thesis by (simp add: sorted_map sorted_wrt_iff_nth_less)
qed

lemma sorted_wrt_slice0: "sorted_wrt R xs \<Longrightarrow> sorted_wrt R (slice0 l xs)"
  by (simp add: slice0_def sorted_wrt_take)

lemma pie_ranking_ties:
  "filter (\<lambda>k. count_list keys k = n) (pie_ranking keys) =
   filter (\<lambda>k. count_list keys k = n) (key_order (first_seen keys))"
proof -
  have "filter (\<lambda>k. - int (count_list keys k) = - int n) (pie_ranking keys) =
        filter (\<lambda>k. - int (count_list keys k) = - int n) (key_order (first_seen keys))"
    unfolding pie_ranking_def by (rule sort_key_stable)
  then show ?thesis by simp
qed

lemma foldl_jadd_pie:
  "foldl jadd (Fin a) (map (\<lambda>k. Fin (real (f k))) ks) = Fin (a + real (sum_list (map f ks)))"
  by (induction ks arbitrary: a) (simp_all add: add.assoc)

lemma total_value_pie:
  "total_value (map (\<lambda>k. pie_point k (f k)) ks) = Fin (real (sum_list (map f ks)))"
  using foldl_jadd_pie [of 0 f ks] by (simp add: total_value_def value_number_def pie_point_def o_def)

lemma pie_sorted:
  assumes "list_all plain_key (map (group_name eng c) data)"
  shows "sorted_wrt (\<lambda>p q. js_le (value_number q) (value_number p)) (preparePieChartData eng data c limit)"
proof -
  let ?keys = "map (group_name eng c) data"
  have "sorted_wrt (\<lambda>j k. count_list ?keys k \<le> count_list ?keys j)
          (slice0 (or_default 8 limit) (pie_ranking ?keys))"
    by (rule sorted_wrt_slice0) (rule sorted_pie_ranking)
  then show ?thesis
    by (simp add: preparePieChartData_eq [OF assms] sorted_wrt_map pie_point_def value_number_def)
qed

lemma pie_total:
  assumes "list_all plain_key (map (group_name eng c) data)"
  shows "js_le (total_value (preparePieChartData eng data c limit)) (Fin (real (length data)))"
proof -
  let ?keys = "map (group_name eng c) data"
  have "distinct (slice0 (or_default 8 limit) (pie_ranking ?keys))"
    by (rule distinct_slice0) simp
  then have "sum_list (map (count_list ?keys) (slice0 (or_default 8 limit) (pie_ranking ?keys)))
      \<le> length ?keys"
    by (rule sum_counts_le)
  then show ?thesis
    by (simp add: preparePieChartData_eq [OF assms] total_value_pie)
qed

lemma pie_length:
  "0 \<le> or_default 8 limit \<Longrightarrow>
     length (preparePieChartData eng data c limit) \<le> nat (or_default 8 limit)"
  by (simp add: preparePieChartData_entries length_slice0)

lemma array_index_A: "array_index ''A'' = None" "array_index ''B'' = None"
  by (simp_all add: array_index_def is_digit_def)

lemma array_index_1: "array_index ''1'' = Some 1" "array_index ''2'' = Some 2"
  by (simp_all add: array_index_def is_digit_def digits_val_def digit_val_def)

lemma plain_letters: "''A'' \<notin> set proto_members" "''B'' \<notin> set proto_members"
  "''1'' \<notin> set proto_members" "''2'' \<notin> set proto_members" "''Unknown'' \<notin> set proto_members"
  by (simp_all add: proto_members_def)

lemma pie_ab:
  "preparePieChartData eng ab_rows ''c'' (Some 8) = [pie_point ''A'' 2, pie_point ''B'' 1]"
  by (simp add: preparePieChartData_def ab_rows_def cell_def js_or_def Object_entries_def
      plain_letters array_index_A Array_sort_def by_count_descending_def jsub_def slice0_def
      or_default_def pie_point_def)

lemma pie_tie:
  "preparePieChartData eng tie_rows ''c'' (Some 8) = [pie_point ''1'' 1, pie_point ''2'' 1]"
  by (simp add: preparePieChartData_def tie_rows_def cell_def js_or_def Object_entries_def
      plain_letters array_index_1 index_rank_def Array_sort_def by_count_descending_def jsub_def
      slice0_def or_default_def pie_point_def)

lemma pie_tie_claimed:
  "pie_as_claimed eng tie_rows ''c'' 8 = [pie_point ''2'' 1, pie_point ''1'' 1]"
  by (simp add: pie_as_claimed_def tie_rows_def cell_def missing_cell_def)

lemma nat_to_string_0: "nat_to_string 0 = ''0''"
  by (simp add: nat_to_string.simps digit_char_def)

lemma pie_zero:
  "preparePieChartData reference_engine zero_rows ''c'' (Some 8) = [pie_point ''Unknown'' 1]"
  by (simp add: preparePieChartData_def zero_rows_def cell_def js_or_def Object_entries_def
      plain_letters array_index_def is_digit_def Array_sort_def slice0_def or_default_def
      pie_point_def)

lemma pie_zero_claimed:
  "pie_as_claimed reference_engine zero_rows ''c'' 8 = [pie_point ''0'' 1]"
  by (simp add: pie_as_claimed_def zero_rows_def cell_def missing_cell_def reference_engine_def
      nat_to_string_0)

lemma pie_ab_negative:
  "preparePieChartData eng ab_rows ''c'' (Some (- 1)) = [pie_point ''A'' 2]"
  by (simp add: preparePieChartData_def ab_rows_def cell_def js_or_def Object_entries_def
      plain_letters array_index_A Array_sort_def by_count_descending_def jsub_def slice0_def
      or_default_def pie_point_def)

lemma pie_constructor:
  "preparePieChartData reference_engine constructor_rows ''c'' (Some 8) =
     [\<lparr>pt_name = ''constructor'', pt_value = JStr ''function Object() { [native code] }1'',
       pt_x = None, pt_y = None\<rparr>]"
  by (simp add: preparePieChartData_def constructor_rows_def cell_def js_or_def Object_entries_def
      proto_members_def reference_engine_def inherited_text_def array_index_def is_digit_def Array_sort_def
      slice0_def or_default_def)

lemma pie_proto:
  "preparePieChartData reference_engine proto_rows ''c'' (Some 8) = []"
  by (simp add: preparePieChartData_def proto_rows_def cell_def js_or_def Object_entries_def
      Array_sort_def slice0_def or_default_def)

text \<open>
  The projection differs from the one the specification words: two groups of equal count
  whose keys are the array indices "2" and "1" come out in numeric order, not in
  first-seen order; a cell holding the number 0 is grouped under \<open>Unknown\<close>, not under
  its string "0"; a negative limit keeps all groups but the last ones, so the result
  is longer than the limit; the group of a row whose cell is the string "constructor" has
  for its value a string that is no count; and a row whose cell is the string
  "__proto__" is in no group.
\<close>

theorem C6_pie_counterexample:
  "preparePieChartData reference_engine tie_rows ''c'' (Some 8) = [pie_point ''1'' 1, pie_point ''2'' 1] \<and>
   pie_as_claimed reference_engine tie_rows ''c'' 8 = [pie_point ''2'' 1, pie_point ''1'' 1] \<and>
   preparePieChartData reference_engine tie_rows ''c'' (Some 8) \<noteq> pie_as_claimed reference_engine tie_rows ''c'' 8 \<and>
   preparePieChartData reference_engine zero_rows ''c'' (Some 8) = [pie_point ''Unknown'' 1] \<and>
   pie_as_claimed reference_engine zero_rows ''c'' 8 = [pie_point ''0'' 1] \<and>
   \<not> int (length (preparePieChartData reference_engine ab_rows ''c'' (Some (- 1)))) \<le> - 1 \<and>
   preparePieChartData reference_engine constructor_rows ''c'' (Some 8) =
     [\<lparr>pt_name = ''constructor'', pt_value = JStr ''function Object() { [native code] }1'',
       pt_x = None, pt_y = None\<rparr>] \<and>
   pie_as_claimed reference_engine constructor_rows ''c'' 8 = [pie_point ''constructor'' 1] \<and>
   preparePieChartData reference_engine proto_rows ''c'' (Some 8) = [] \<and>
   pie_as_claimed reference_engine proto_rows ''c'' 8 = [pie_point ''__proto__'' 1]"
  by (simp add: pie_tie pie_tie_claimed pie_zero pie_zero_claimed pie_ab_negative pie_point_def
      pie_constructor pie_proto)
    (simp add: pie_as_claimed_def constructor_rows_def proto_rows_def cell_def missing_cell_def
      pie_point_def)

text \<open>
  C6 (as amended). With a limit that is not negative (default 8) the pie projection
  returns at most \<open>limit\<close> points. When no group name is the name of a member of
  \<^verbatim>\<open>Object.prototype\<close>, the projection groups the rows by the string of the cell of the
  selected column, every falsy cell under \<open>Unknown\<close>; the value of a point is the number
  of rows of its group; the points are sorted by descending value, groups of equal count
  in the order in which the object enumerates its keys (array indices ascending, then the
  other keys as first seen); and the sum of the values never exceeds the number of rows.
  Over the cells A, A, B with limit 8 it returns A with 2, then B with 1.
\<close>

theorem C6_preparePieChartData:
  "(0 \<le> or_default 8 limit \<longrightarrow>
      length (preparePieChartData eng data c limit) \<le> nat (or_default 8 limit)) \<and>
   (list_all plain_key (map (group_name eng c) data) \<longrightarrow>
      preparePieChartData eng data c limit =
        map (\<lambda>k. pie_point k (count_list (map (group_name eng c) data) k))
          (slice0 (or_default 8 limit) (pie_ranking (map (group_name eng c) data))) \<and>
      sorted_wrt (\<lambda>p q. js_le (value_number q) (value_number p)) (preparePieChartData eng data c limit) \<and>
      js_le (total_value (preparePieChartData eng data c limit)) (Fin (real (length data)))) \<and>
   (\<forall>n. filter (\<lambda>k. count_list (map (group_name eng c) data) k = n)
          (pie_ranking (map (group_name eng c) data)) =
        filter (\<lambda>k. count_list (map (group_name eng c) data) k = n)
          (key_order (first_seen (map (group_name eng c) data)))) \<and>
   preparePieChartData eng ab_rows ''c'' (Some 8) = [pie_point ''A'' 2, pie_point ''B'' 1]"
  using preparePieChartData_eq [of eng c data limit] pie_length [of limit eng data c]
    pie_sorted [of eng c data limit] pie_total [of eng c data limit] pie_ab [of eng]
    pie_ranking_ties [of "map (group_name eng c) data"]
  by blast

theorem C6_pie_witness:
  "0 \<le> or_default 8 (Some 8) \<and>
   length (preparePieChartData reference_engine ab_rows ''c'' (Some 8)) \<le> nat (or_default 8 (Some 8)) \<and>
   list_all plain_key (map (group_name reference_engine ''c'') tie_rows) \<and>
   preparePieChartData reference_engine tie_rows ''c'' (Some 8) =
     map (\<lambda>k. pie_point k (count_list (map (group_name reference_engine ''c'') tie_rows) k))
       (slice0 (or_default 8 (Some 8)) (pie_ranking (map (group_name reference_engine ''c'') tie_rows))) \<and>
   js_le (total_value (preparePieChartData reference_engine tie_rows ''c'' (Some 8)))
     (Fin (real (length tie_rows))) \<and>
   preparePieChartData reference_engine ab_rows ''c'' (Some 8) = [pie_point ''A'' 2, pie_point ''B'' 1]"
proof -
  have h1: "0 \<le> or_default 8 (Some 8)" by (simp add: or_default_def)
  have h2: "list_all plain_key (map (group_name reference_engine ''c'') tie_rows)"
    by (simp add: tie_rows_def group_name_def cell_def plain_key_def plain_letters)
  note a = C6_preparePieChartData [of "Some 8" reference_engine ab_rows "''c''"]
  note b = C6_preparePieChartData [of "Some 8" reference_engine tie_rows "''c''"]
  from a h1 have r1: "length (preparePieChartData reference_engine ab_rows ''c'' (Some 8))
      \<le> nat (or_default 8 (Some 8))" by blast
  from a have r2: "preparePieChartData reference_engine ab_rows ''c'' (Some 8) =
      [pie_point ''A'' 2, pie_point ''B'' 1]" by blast
  from b h2 have r3: "preparePieChartData reference_engine tie_rows ''c'' (Some 8) =
     map (\<lambda>k. pie_point k (count_list (map (group_name reference_engine ''c'') tie_rows) k))
       (slice0 (or_default 8 (Some 8)) (pie_ranking (map (group_name reference_engine ''c'') tie_rows)))"
    by blast
  from b h2 have r4: "js_le (total_value (preparePieChartData reference_engine tie_rows ''c'' (Some 8)))
     (Fin (real (length tie_rows)))" by blast
  from h1 h2 r1 r2 r3 r4 show ?thesis by blast
qed

section \<open>C10: falsy cells in the bar and pie projections\<close>

lemma num_or_zero_not_NaN [simp]: "\<not> isNaN (JNum (num_or a (Fin 0)))"
  by (cases a) (simp_all add: num_or_def isNaN_def)

lemma map_enumerate_nth:
  "map (\<lambda>(i, r). f i r) (enumerate 0 xs) = map (\<lambda>i. f i (xs ! i)) [0..<length xs]"
  by (rule nth_equalityI) (simp_all add: nth_enumerate_eq)

lemma prepareBarChartData_eq:
  "prepareBarChartData eng data xc yc limit =
     map (\<lambda>i. bar_point eng xc yc i (slice0 (or_default 20 limit) data ! i))
       [0..<length (slice0 (or_default 20 limit) data)]"
proof -
  have "prepareBarChartData eng data xc yc limit =
      filter (\<lambda>item. \<not> isNaN (pt_value item))
        (map (\<lambda>(i, r). bar_point eng xc yc i r) (enumerate 0 (slice0 (or_default 20 limit) data)))"
    by (simp add: prepareBarChartData_def bar_point_def)
  also have "\<dots> = map (\<lambda>(i, r). bar_point eng xc yc i r) (enumerate 0 (slice0 (or_default 20 limit) data))"
    by (rule filter_True) (auto simp: bar_point_def)
  finally show ?thesis by (simp add: map_enumerate_nth)
qed

lemma slice0_nth: "i < length (slice0 l xs) \<Longrightarrow> slice0 l xs ! i = xs ! i"
  by (simp add: slice0_def split: if_splits)

lemma bar_falsy_name:
  assumes "i < length (prepareBarChartData eng data xc yc limit)"
    and "\<not> truthy (cell (data ! i) xc)"
  shows "pt_name (prepareBarChartData eng data xc yc limit ! i) = ''Item '' @ nat_to_string (i + 1)"
proof -
  from assms(1) have i: "i < length (slice0 (or_default 20 limit) data)"
    by (simp add: prepareBarChartData_eq)
  then have "prepareBarChartData eng data xc yc limit ! i = bar_point eng xc yc i (data ! i)"
    by (simp add: prepareBarChartData_eq slice0_nth)
  with assms(2) show ?thesis by (simp add: bar_point_def js_or_def)
qed

lemma falsy_value: "\<not> truthy v \<Longrightarrow> num_or (parseFloat v) (Fin 0) = Fin 0"
  by (cases v) (auto simp: num_or_def parseFloat_str_def)

lemma absent_cell: "plain_key c \<Longrightarrow> r c = None \<Longrightarrow> cell r c = JUndefined"
  by (simp add: cell_def plain_key_def)

lemma cell_nullified_same:
  "cell (nullified c r) c = (if truthy (cell r c) then cell r c else JNull)"
  by (simp add: nullified_def cell_def)

lemma cell_nullified_other: "d \<noteq> c \<Longrightarrow> cell (nullified c r) d = cell r d"
  by (simp add: nullified_def cell_def)

lemma cell_blank_same:
  "plain_key c \<Longrightarrow> cell (blank c r) c = (if truthy (cell r c) then cell r c else JUndefined)"
  by (simp add: blank_def cell_def plain_key_def)

lemma cell_blank_other: "d \<noteq> c \<Longrightarrow> cell (blank c r) d = cell r d"
  by (simp add: blank_def cell_def)

text \<open>
  The point of a row depends on the two cells only, and two falsy cells under the x column
  give the same point.
\<close>

lemma bar_point_falsy:
  assumes same: "truthy (cell r xc) \<Longrightarrow> cell r' xc = cell r xc"
    and falsy: "\<not> truthy (cell r xc) \<Longrightarrow> \<not> truthy (cell r' xc)"
    and other: "yc \<noteq> xc \<Longrightarrow> cell r' yc = cell r yc"
  shows "bar_point eng xc yc i r' = bar_point eng xc yc i r"
proof (cases "truthy (cell r xc)")
  case True
  with same other show ?thesis
    by (cases "yc = xc") (simp_all add: bar_point_def)
next
  case False
  with falsy have f: "\<not> truthy (cell r' xc)" by simp
  have "num_or (parseFloat (cell r' yc)) (Fin 0) = num_or (parseFloat (cell r yc)) (Fin 0)"
  proof (cases "yc = xc")
    case True
    with False f show ?thesis by (simp add: falsy_value)
  next
    case False
    with other show ?thesis by simp
  qed
  with False f show ?thesis by (simp add: bar_point_def js_or_def)
qed

lemma bar_point_nullified: "bar_point eng xc yc i (nullified xc r) = bar_point eng xc yc i r"
  by (rule bar_point_falsy) (simp_all add: cell_nullified_same cell_nullified_other)

lemma bar_point_blank:
  "plain_key xc \<Longrightarrow> bar_point eng xc yc i (blank xc r) = bar_point eng xc yc i r"
  by (rule bar_point_falsy) (simp_all add: cell_blank_same cell_blank_other)

lemma bar_nullified:
  "prepareBarChartData eng (map (nullified xc) data) xc yc limit = prepareBarChartData eng data xc yc limit"
  by (simp add: prepareBarChartData_eq slice0_map bar_point_nullified)

lemma bar_blank:
  "plain_key xc \<Longrightarrow>
     prepareBarChartData eng (map (blank xc) data) xc yc limit = prepareBarChartData eng data xc yc limit"
  by (simp add: prepareBarChartData_eq slice0_map bar_point_blank)

lemma group_name_nullified: "group_name eng c (nullified c r) = group_name eng c r"
  by (simp add: group_name_def cell_nullified_same)

lemma group_name_blank: "plain_key c \<Longrightarrow> group_name eng c (blank c r) = group_name eng c r"
  by (simp add: group_name_def cell_blank_same)

lemma pie_nullified:
  "preparePieChartData eng (map (nullified c) data) c limit = preparePieChartData eng data c limit"
  by (simp add: preparePieChartData_entries o_def group_name_nullified)

lemma pie_blank:
  "plain_key c \<Longrightarrow>
     preparePieChartData eng (map (blank c) data) c limit = preparePieChartData eng data c limit"
  by (simp add: preparePieChartData_entries o_def group_name_blank)

lemma count_list_map: "count_list (map f xs) b = length (filter (\<lambda>a. f a = b) xs)"
  by (induction xs) simp_all

lemma group_name_Unknown:
  "group_name eng c r = ''Unknown'' \<longleftrightarrow> \<not> truthy (cell r c) \<or> jsToString eng (cell r c) = ''Unknown''"
  by (simp add: group_name_def)

text \<open>The entries that the pie projection sorts, on every input.\<close>

lemma pie_entries:
  "Object_entries (count_keys eng ks) =
     map (\<lambda>k. (k, counted eng ks k)) (key_order (filter (\<lambda>k. k \<noteq> ''__proto__'') (first_seen ks)))"
  by (simp add: count_keys_eq Object_entries_map)

lemma pie_points:
  assumes "p \<in> set (preparePieChartData eng data c limit)"
  shows "\<exists>k \<in> set (map (group_name eng c) data).
           p = \<lparr>pt_name = k, pt_value = cval_value (counted eng (map (group_name eng c) data) k),
                pt_x = None, pt_y = None\<rparr>"
proof -
  let ?ks = "map (group_name eng c) data"
  let ?E = "Array_sort by_count_descending (Object_entries (count_keys eng ?ks))"
  from assms obtain e where e: "e \<in> set (slice0 (or_default 8 limit) ?E)"
    and p: "p = (case e of (name, v) \<Rightarrow> \<lparr>pt_name = name, pt_value = cval_value v, pt_x = None, pt_y = None\<rparr>)"
    by (auto simp: preparePieChartData_entries)
  from e set_slice0 [of "or_default 8 limit" ?E] have "e \<in> set ?E" by blast
  then obtain k where k: "k \<in> set ?ks" and ek: "e = (k, counted eng ?ks k)"
    by (auto simp: pie_entries)
  from p ek k show ?thesis by auto
qed

lemma pie_Unknown_value:
  assumes "p \<in> set (preparePieChartData eng data c limit)" and "pt_name p = ''Unknown''"
  shows "pt_value p =
     JNum (Fin (real (length (filter (\<lambda>r. \<not> truthy (cell r c) \<or> jsToString eng (cell r c) = ''Unknown'') data))))"
proof -
  from pie_points [OF assms(1)] assms(2)
  have "pt_value p = cval_value (counted eng (map (group_name eng c) data) ''Unknown'')"
    by auto
  then show ?thesis
    by (simp add: counted_def plain_key_def plain_letters count_list_map group_name_Unknown)
qed

lemma pie_Unknown_present:
  assumes "r \<in> set data" and "\<not> truthy (cell r c)" and "int (length data) \<le> or_default 8 limit"
  shows "\<exists>p \<in> set (preparePieChartData eng data c limit). pt_name p = ''Unknown''"
proof -
  let ?ks = "map (group_name eng c) data"
  let ?F = "filter (\<lambda>k. k \<noteq> ''__proto__'') (first_seen ?ks)"
  let ?E = "Array_sort by_count_descending (Object_entries (count_keys eng ?ks))"
  have "length ?F \<le> length (first_seen ?ks)" by simp
  also have "\<dots> \<le> length data" using length_first_seen [of ?ks] by simp
  finally have "length ?E \<le> length data" by (simp add: pie_entries)
  with assms(3) have all: "slice0 (or_default 8 limit) ?E = ?E"
    by (simp add: slice0_def)
  have "''Unknown'' \<in> set ?ks"
    using assms(1,2) by (force simp: group_name_def)
  then have "''Unknown'' \<in> set ?F" by simp
  then have "(''Unknown'', counted eng ?ks ''Unknown'') \<in> set ?E"
    by (simp add: pie_entries)
  then have "\<lparr>pt_name = ''Unknown'', pt_value = cval_value (counted eng ?ks ''Unknown''),
       pt_x = None, pt_y = None\<rparr> \<in> set (preparePieChartData eng data c limit)"
    unfolding preparePieChartData_entries all by force
  then show ?thesis by force
qed

text \<open>
  C10. In the bar projection a row whose x cell is falsy (the number 0, false, the empty
  string, as well as null or a cell that the row lacks) is named \<open>Item\<close> followed by its
  index plus one; in the pie projection such rows are counted in the group \<open>Unknown\<close>; and
  neither projection changes when a falsy cell is replaced by a missing one: by null, or,
  in a column that is not named like a member of \<^verbatim>\<open>Object.prototype\<close>, by no cell at all.
\<close>

theorem C10_falsy_cells:
  "(i < length (prepareBarChartData eng data xc yc limit) \<and> \<not> truthy (cell (data ! i) xc) \<longrightarrow>
      pt_name (prepareBarChartData eng data xc yc limit ! i) = ''Item '' @ nat_to_string (i + 1)) \<and>
   (p \<in> set (preparePieChartData eng data xc limit) \<and> pt_name p = ''Unknown'' \<longrightarrow>
      pt_value p =
        JNum (Fin (real (length (filter (\<lambda>r. \<not> truthy (cell r xc) \<or> jsToString eng (cell r xc) = ''Unknown'') data))))) \<and>
   (r \<in> set data \<and> \<not> truthy (cell r xc) \<and> int (length data) \<le> or_default 8 limit \<longrightarrow>
      (\<exists>q. q \<in> set (preparePieChartData eng data xc limit) \<and> pt_name q = ''Unknown'')) \<and>
   prepareBarChartData eng (map (nullified xc) data) xc yc limit = prepareBarChartData eng data xc yc limit \<and>
   preparePieChartData eng (map (nullified xc) data) xc limit = preparePieChartData eng data xc limit \<and>
   (plain_key xc \<longrightarrow>
      prepareBarChartData eng (map (blank xc) data) xc yc limit = prepareBarChartData eng data xc yc limit \<and>
      preparePieChartData eng (map (blank xc) data) xc limit = preparePieChartData eng data xc limit) \<and>
   (plain_key xc \<and> r xc = None \<longrightarrow> \<not> truthy (cell r xc)) \<and>
   \<not> truthy (JNum (Fin 0)) \<and> \<not> truthy (JBool False) \<and> \<not> truthy (JStr []) \<and> \<not> truthy JNull"
  using bar_falsy_name [of i eng data xc yc limit] pie_Unknown_value [of p eng data xc limit]
    pie_Unknown_present [of r data xc limit eng] bar_nullified [of eng xc data yc limit]
    pie_nullified [of eng xc data limit] bar_blank [of xc eng data yc limit]
    pie_blank [of xc eng data limit] absent_cell [of xc r]
  by auto

lemma falsy_bar:
  "prepareBarChartData eng falsy_rows ''x'' ''y'' None =
     [\<lparr>pt_name = ''Item 1'', pt_value = JNum (Fin 5), pt_x = None, pt_y = None\<rparr>,
      \<lparr>pt_name = ''Item 2'', pt_value = JNum (Fin 6), pt_x = None, pt_y = None\<rparr>,
      \<lparr>pt_name = ''Item 3'', pt_value = JNum (Fin 7), pt_x = None, pt_y = None\<rparr>]"
  by (simp add: prepareBarChartData_def falsy_rows_def or_default_def slice0_def enumerate_eq_zip
      upt_rec cell_def js_or_def num_or_def parseFloat_defs nat_to_string.simps digit_char_def
      isNaN_def)

lemma falsy_pie:
  "preparePieChartData eng falsy_rows ''x'' None = [pie_point ''Unknown'' 3]"
  by (simp add: preparePieChartData_def falsy_rows_def cell_def js_or_def Object_entries_def
      plain_letters array_index_def is_digit_def Array_sort_def slice0_def or_default_def
      pie_point_def)

lemma plain_x: "plain_key ''x''"
  by (simp add: plain_key_def proto_members_def)

theorem C10_falsy_cells_witness:
  "1 < length (prepareBarChartData reference_engine falsy_rows ''x'' ''y'' None) \<and>
   \<not> truthy (cell (falsy_rows ! 1) ''x'') \<and>
   pt_name (prepareBarChartData reference_engine falsy_rows ''x'' ''y'' None ! 1) = ''Item 2'' \<and>
   pie_point ''Unknown'' 3 \<in> set (preparePieChartData reference_engine falsy_rows ''x'' None) \<and>
   pt_name (pie_point ''Unknown'' 3) = ''Unknown'' \<and>
   pt_value (pie_point ''Unknown'' 3) =
     JNum (Fin (real (length (filter (\<lambda>r. \<not> truthy (cell r ''x'') \<or>
                                     jsToString reference_engine (cell r ''x'') = ''Unknown'') falsy_rows)))) \<and>
   falsy_rows ! 0 \<in> set falsy_rows \<and> \<not> truthy (cell (falsy_rows ! 0) ''x'') \<and>
   int (length falsy_rows) \<le> or_default 8 None \<and>
   (\<exists>q. q \<in> set (preparePieChartData reference_engine falsy_rows ''x'' None) \<and> pt_name q = ''Unknown'') \<and>
   plain_key ''x'' \<and> Map.empty ''x'' = (None :: jsval option) \<and> \<not> truthy (cell Map.empty ''x'') \<and>
   prepareBarChartData reference_engine (map (blank ''x'') falsy_rows) ''x'' ''y'' None =
     prepareBarChartData reference_engine falsy_rows ''x'' ''y'' None \<and>
   preparePieChartData reference_engine (map (blank ''x'') falsy_rows) ''x'' None =
     preparePieChartData reference_engine falsy_rows ''x'' None"
proof -
  have h1: "1 < length (prepareBarChartData reference_engine falsy_rows ''x'' ''y'' None) \<and>
      \<not> truthy (cell (falsy_rows ! 1) ''x'')"
    by (simp add: falsy_bar) (simp add: falsy_rows_def cell_def)
  have h2: "pie_point ''Unknown'' 3 \<in> set (preparePieChartData reference_engine falsy_rows ''x'' None) \<and>
      pt_name (pie_point ''Unknown'' 3) = ''Unknown''"
    by (simp add: falsy_pie) (simp add: pie_point_def)
  have h3: "falsy_rows ! 0 \<in> set falsy_rows \<and> \<not> truthy (cell (falsy_rows ! 0) ''x'') \<and>
      int (length falsy_rows) \<le> or_default 8 None"
    by (simp add: falsy_rows_def cell_def or_default_def)
  have h4: "plain_key ''x'' \<and> Map.empty ''x'' = (None :: jsval option)"
    by (simp add: plain_x)
  note inst = C10_falsy_cells [of 1 reference_engine falsy_rows "''x''" "''y''" None
      "pie_point ''Unknown'' 3" "falsy_rows ! 0"]
  note inst' = C10_falsy_cells [of 1 reference_engine falsy_rows "''x''" "''y''" None
      "pie_point ''Unknown'' 3" Map.empty]
  have "pt_name (prepareBarChartData reference_engine falsy_rows ''x'' ''y'' None ! 1) =
      ''Item '' @ nat_to_string (1 + 1)"
    using inst h1 by blast
  moreover have "nat_to_string (1 + 1) = ''2''"
    by (simp add: nat_to_string.simps digit_char_def)
  ultimately have r1:
    "pt_name (prepareBarChartData reference_engine falsy_rows ''x'' ''y'' None ! 1) = ''Item 2''"
    by simp
  have r2: "pt_value (pie_point ''Unknown'' 3) =
     JNum (Fin (real (length (filter (\<lambda>r. \<not> truthy (cell r ''x'') \<or>
                                     jsToString reference_engine (cell r ''x'') = ''Unknown'') falsy_rows))))"
    using inst h2 by blast
  have r3: "\<exists>q. q \<in> set (preparePieChartData reference_engine falsy_rows ''x'' None) \<and> pt_name q = ''Unknown''"
    using inst h3 by blast
  have r4: "\<not> truthy (cell Map.empty ''x'')"
    using inst' h4 by blast
  have r5: "prepareBarChartData reference_engine (map (blank ''x'') falsy_rows) ''x'' ''y'' None =
     prepareBarChartData reference_engine falsy_rows ''x'' ''y'' None \<and>
   preparePieChartData reference_engine (map (blank ''x'') falsy_rows) ''x'' None =
     preparePieChartData reference_engine falsy_rows ''x'' None"
    using inst h4 by blast
  from h1 h2 h3 h4 r1 r2 r3 r4 r5 show ?thesis by blast
qed

section \<open>C3: the scatter projection\<close>

lemma prepareScatterData_keeps_all:
  "length (prepareScatterData eng data xc yc limit) = length (slice0 (or_default 100 limit) data)"
proof -
  have "filter (\<lambda>item. \<not> isNaN_field (pt_x item) \<and> \<not> isNaN_field (pt_y item))
          (map (\<lambda>r.
               \<lparr>pt_name = jsToString eng (cell r xc) @ '', '' @ jsToString eng (cell r yc),
                pt_value = JNum (num_or (parseFloat (cell r yc)) (Fin 0)),
                pt_x = Some (num_or (parseFloat (cell r xc)) (Fin 0)),
                pt_y = Some (num_or (parseFloat (cell r yc)) (Fin 0))\<rparr>)
             (slice0 (or_default 100 limit) data)) =
        map (\<lambda>r.
               \<lparr>pt_name = jsToString eng (cell r xc) @ '', '' @ jsToString eng (cell r yc),
                pt_value = JNum (num_or (parseFloat (cell r yc)) (Fin 0)),
                pt_x = Some (num_or (parseFloat (cell r xc)) (Fin 0)),
                pt_y = Some (num_or (parseFloat (cell r yc)) (Fin 0))\<rparr>)
             (slice0 (or_default 100 limit) data)"
    by (rule filter_True) (auto simp: num_or_def isNaN_num_iff)
  then show ?thesis by (simp add: prepareScatterData_def)
qed

text \<open>
  C3. The specification wants a point whose x or y cell does not parse to a number left
  out of the scatter projection, and the code filters on \<^verbatim>\<open>!isNaN\<close> to that end. But it
  replaces a failed parse by 0 before it filters, so the filter never removes a point: the
  row with the x cell "abc" is returned with the coordinate 0.
\<close>

theorem C3_scatter_defaulted_point:
  "parseFloat (cell (scatter_rows ! 0) ''a'') = NaN \<and>
   prepareScatterData reference_engine scatter_rows ''a'' ''b'' None =
     [\<lparr>pt_name = ''abc, 1'', pt_value = JNum (Fin 1), pt_x = Some (Fin 0), pt_y = Some (Fin 1)\<rparr>]"
  by (simp add: prepareScatterData_def scatter_rows_def or_default_def slice0_def cell_def
      num_or_def parseFloat_defs)

section \<open>The branches of the column statistics\<close>

lemma numericStats_fields:
  "numeric_branch (numericStats nums st)"
  "mode (numericStats nums st) = mode st"
  "averageLength (numericStats nums st) = averageLength st"
  "count (numericStats nums st) = count st"
  "nullCount (numericStats nums st) = nullCount st"
  "uniqueCount (numericStats nums st) = uniqueCount st"
  by (simp_all add: numericStats_def numeric_branch_def Let_def)

lemma baseStats_fields:
  "no_numeric_field (baseStats vs)" "mode (baseStats vs) = None" "averageLength (baseStats vs) = None"
  "count (baseStats vs) = length vs" "nullCount (baseStats vs) = length vs - length (nonNull vs)"
  "uniqueCount (baseStats vs) = card (set (nonNull vs))"
  by (simp_all add: baseStats_def no_numeric_field_def length_remdups_card_conv)

lemma text_stats_fields:
  "no_numeric_field ((baseStats vs)\<lparr>mode := m\<rparr>)"
  "\<not> numeric_branch ((baseStats vs)\<lparr>mode := m\<rparr>)"
  "mode ((baseStats vs)\<lparr>mode := m\<rparr>) = m"
  "averageLength ((baseStats vs)\<lparr>mode := m\<rparr>) = None"
  "count ((baseStats vs)\<lparr>mode := m\<rparr>) = length vs"
  "nullCount ((baseStats vs)\<lparr>mode := m\<rparr>) = length vs - length (nonNull vs)"
  "uniqueCount ((baseStats vs)\<lparr>mode := m\<rparr>) = card (set (nonNull vs))"
  by (simp_all add: baseStats_def no_numeric_field_def numeric_branch_def length_remdups_card_conv)

lemma numeric_branch_not_none: "numeric_branch s \<Longrightarrow> \<not> no_numeric_field s"
  by (simp add: numeric_branch_def no_numeric_field_def)

lemma ToNumber_date: "ToNumber (JDate i t) = NaN \<longleftrightarrow> t = None"
  by (cases t) simp_all

lemma numeric_cell_iff:
  "v \<in> set (nonNull vs) \<and> \<not> isNaN (parse_string v) \<longleftrightarrow> v \<in> set vs \<and> numeric_cell v"
  by (cases v rule: numeric_cell.cases)
    (auto simp: nonNull_def parse_string_def isNaN_def isNaN_num_iff parseFloat_str_def ToNumber_date)

lemma numericValues_nonempty: "numericValues vs \<noteq> [] \<longleftrightarrow> (\<exists>v \<in> set vs. numeric_cell v)"
proof -
  have "numericValues vs \<noteq> [] \<longleftrightarrow> (\<exists>v \<in> set (nonNull vs). \<not> isNaN (parse_string v))"
    by (auto simp: numericValues_def filter_empty_conv)
  also have "\<dots> \<longleftrightarrow> (\<exists>v \<in> set vs. numeric_cell v)"
    using numeric_cell_iff [of _ vs] by blast
  finally show ?thesis .
qed

lemma server_numeric:
  "numericValues vs \<noteq> [] \<Longrightarrow>
     calculateColumnStatistics eng vs = numericStats (numericValues vs) (baseStats vs)"
  by (simp add: calculateColumnStatistics_def Let_def)

lemma server_text:
  "numericValues vs = [] \<Longrightarrow> nonNull vs \<noteq> [] \<Longrightarrow>
     calculateColumnStatistics eng vs =
       (baseStats vs)\<lparr>mode := Some (find_mode (count_keys eng (map (jsToString eng) (nonNull vs))))\<rparr>"
  by (simp add: calculateColumnStatistics_def Let_def reduce_count_keys)

lemma server_base:
  "nonNull vs = [] \<Longrightarrow> calculateColumnStatistics eng vs = baseStats vs"
  by (simp add: calculateColumnStatistics_def Let_def numericValues_def)

lemma server_branches:
  "(numeric_branch (calculateColumnStatistics eng vs) \<longleftrightarrow> (\<exists>v \<in> set vs. numeric_cell v)) \<and>
   ((\<exists>v \<in> set vs. numeric_cell v) \<longrightarrow> mode (calculateColumnStatistics eng vs) = None) \<and>
   (\<not> (\<exists>v \<in> set vs. numeric_cell v) \<and> nonNull vs \<noteq> [] \<longrightarrow>
      mode (calculateColumnStatistics eng vs) \<noteq> None \<and>
      no_numeric_field (calculateColumnStatistics eng vs)) \<and>
   (nonNull vs = [] \<longrightarrow>
      mode (calculateColumnStatistics eng vs) = None \<and>
      no_numeric_field (calculateColumnStatistics eng vs)) \<and>
   count (calculateColumnStatistics eng vs) = length vs \<and>
   nullCount (calculateColumnStatistics eng vs) = length vs - length (nonNull vs) \<and>
   uniqueCount (calculateColumnStatistics eng vs) = card (set (nonNull vs))"
proof (cases "numericValues vs = []")
  case False
  then have "\<exists>v \<in> set vs. numeric_cell v" by (simp add: numericValues_nonempty)
  moreover from this have "nonNull vs \<noteq> []"
    using False by (auto simp: numericValues_def)
  ultimately show ?thesis
    using False by (simp add: server_numeric numericStats_fields baseStats_fields)
next
  case True
  then have none: "\<not> (\<exists>v \<in> set vs. numeric_cell v)"
    using numericValues_nonempty [of vs] by simp
  show ?thesis
  proof (cases "nonNull vs = []")
    case True
    with none show ?thesis
      using numeric_branch_not_none [of "baseStats vs"]
      by (auto simp add: server_base baseStats_fields)
  next
    case False
    with True none show ?thesis
      by (simp add: server_text text_stats_fields)
  qed
qed

section \<open>The mode of a counter\<close>





lemma js_max_NaN_right [simp]: "js_max m NaN = NaN"
  by (cases m) simp_all









lemma counted_keys_plain: "list_all plain_key ks \<Longrightarrow> counted_keys ks = ks"
  unfolding counted_keys_def using proto_not_plain by (intro filter_True) (auto simp: list_all_iff)

lemma plain_no_junk: "list_all plain_key ks \<Longrightarrow> \<not> list_ex junk_key ks"
  by (auto simp: list_all_iff list_ex_iff junk_key_def plain_key_def)











section \<open>The text branch of the server and of the client\<close>





lemma server_no_average: "averageLength (calculateColumnStatistics eng vs) = None"
proof (cases "numericValues vs = []")
  case False
  then show ?thesis by (simp add: server_numeric numericStats_fields baseStats_fields)
next
  case True
  then show ?thesis
    by (cases "nonNull vs = []") (simp_all add: server_base server_text text_stats_fields baseStats_fields)
qed

lemma foldl_add_lengths: "foldl (\<lambda>acc v. acc + f v) a xs = a + sum_list (map f xs)" for a :: nat
  by (induction xs arbitrary: a) (simp_all add: add.assoc)

lemma client_text:
  "calculateColumnStatistics_client eng vs ''text'' =
     (baseStats vs)
       \<lparr>mode := Some (find_mode (count_keys eng (map (jsToString eng) (nonNull vs)))),
        averageLength :=
          Some (jdiv (Fin (real (sum_list (map length (map (jsToString eng) (nonNull vs))))))
                     (Fin (real (length (nonNull vs)))))\<rparr>"
  by (simp add: calculateColumnStatistics_client_def Let_def reduce_count_keys
      foldl_add_lengths o_def)

lemma numeric_cell_stripped_iff:
  "v \<in> set (nonNull vs) \<and> \<not> isNaN (parse_string_stripped v) \<longleftrightarrow> v \<in> set vs \<and> numeric_cell_stripped v"
  by (cases v rule: numeric_cell_stripped.cases)
    (auto simp: nonNull_def parse_string_stripped_def isNaN_def isNaN_num_iff parseFloat_str_def
      strip_currency_def ToNumber_date)

lemma client_nums_nonempty:
  "filter (\<lambda>v. \<not> isNaN v) (map parse_string_stripped (nonNull vs)) \<noteq> [] \<longleftrightarrow>
   (\<exists>v \<in> set vs. numeric_cell_stripped v)"
proof -
  have "filter (\<lambda>v. \<not> isNaN v) (map parse_string_stripped (nonNull vs)) \<noteq> [] \<longleftrightarrow>
      (\<exists>v \<in> set (nonNull vs). \<not> isNaN (parse_string_stripped v))"
    by (auto simp: filter_empty_conv)
  also have "\<dots> \<longleftrightarrow> (\<exists>v \<in> set vs. numeric_cell_stripped v)"
    using numeric_cell_stripped_iff [of _ vs] by blast
  finally show ?thesis .
qed

lemma client_numeric:
  "ct = ''number'' \<Longrightarrow> \<exists>v \<in> set vs. numeric_cell_stripped v \<Longrightarrow>
     calculateColumnStatistics_client eng vs ct =
       numericStats (filter (\<lambda>v. \<not> isNaN v) (map parse_string_stripped (nonNull vs))) (baseStats vs)"
  using client_nums_nonempty [of vs] by (simp add: calculateColumnStatistics_client_def Let_def)

lemma client_base:
  "ct \<noteq> ''text'' \<Longrightarrow> \<not> (ct = ''number'' \<and> (\<exists>v \<in> set vs. numeric_cell_stripped v)) \<Longrightarrow>
     calculateColumnStatistics_client eng vs ct = baseStats vs"
  using client_nums_nonempty [of vs] by (auto simp add: calculateColumnStatistics_client_def Let_def)

lemma client_text_fields:
  "\<not> numeric_branch (calculateColumnStatistics_client eng vs ''text'')"
  "no_numeric_field (calculateColumnStatistics_client eng vs ''text'')"
  "mode (calculateColumnStatistics_client eng vs ''text'') =
     Some (find_mode (count_keys eng (map (jsToString eng) (nonNull vs))))"
  "averageLength (calculateColumnStatistics_client eng vs ''text'') =
     Some (jdiv (Fin (real (sum_list (map length (map (jsToString eng) (nonNull vs))))))
                (Fin (real (length (nonNull vs)))))"
  by (simp_all add: client_text baseStats_def numeric_branch_def no_numeric_field_def)

lemma client_branches:
  "(numeric_branch (calculateColumnStatistics_client eng vs ct) \<longleftrightarrow>
      ct = ''number'' \<and> (\<exists>v \<in> set vs. numeric_cell_stripped v)) \<and>
   (ct = ''text'' \<longrightarrow>
      mode (calculateColumnStatistics_client eng vs ct) \<noteq> None \<and>
      averageLength (calculateColumnStatistics_client eng vs ct) \<noteq> None \<and>
      no_numeric_field (calculateColumnStatistics_client eng vs ct)) \<and>
   (ct \<noteq> ''text'' \<and> \<not> (ct = ''number'' \<and> (\<exists>v \<in> set vs. numeric_cell_stripped v)) \<longrightarrow>
      calculateColumnStatistics_client eng vs ct = baseStats vs)"
proof (cases "ct = ''text''")
  case True
  then show ?thesis by (simp add: client_text_fields)
next
  case False
  show ?thesis
  proof (cases "ct = ''number'' \<and> (\<exists>v \<in> set vs. numeric_cell_stripped v)")
    case True
    then show ?thesis using False by (simp add: client_numeric numericStats_fields)
  next
    case no: False
    have "\<not> numeric_branch (baseStats vs)"
      using numeric_branch_not_none [of "baseStats vs"] by (auto simp: baseStats_fields)
    with no False show ?thesis by (simp add: client_base)
  qed
qed

section \<open>C2: the branch of the column statistics\<close>

lemma minority_nums: "numericValues minority_numeric = [JNum (Fin 1)]"
  by (simp add: numericValues_def nonNull_def minority_numeric_def parse_string_def isNaN_def
      parseFloat_defs)

lemma minority_nonNull: "nonNull minority_numeric = minority_numeric"
  by (simp add: nonNull_def minority_numeric_def)

text \<open>
  The server takes the numeric branch as soon as one value is numeric: of the three values
  "1", "a", "b" one parses, which is not more than half, and the profile is numeric.
\<close>

theorem C2_majority_counterexample:
  "numeric_branch (calculateColumnStatistics reference_engine minority_numeric) \<and>
   length (numericValues minority_numeric) = 1 \<and> length (nonNull minority_numeric) = 3 \<and>
   \<not> real (length (numericValues minority_numeric)) > 0.5 * real (length (nonNull minority_numeric))"
proof -
  have "numeric_branch (calculateColumnStatistics reference_engine minority_numeric)"
    by (simp add: server_numeric numericStats_fields minority_nums)
  then show ?thesis
    by (simp add: minority_nums minority_nonNull) (simp add: minority_numeric_def)
qed

text \<open>
  C2 (as amended). The server's column statistics take the numeric branch exactly when at
  least one value is numeric; otherwise, when a non-null value exists, the text branch;
  otherwise they hold the base fields count, nullCount and uniqueCount only; in no branch
  do they hold an average length. The client's column statistics take the numeric branch
  exactly when the column type is \<open>number\<close> and at least one value is numeric, the text
  branch when the column type is \<open>text\<close>, and hold the base fields only otherwise.
\<close>

theorem C2_branch_selection:
  "(numeric_branch (calculateColumnStatistics eng vs) \<longleftrightarrow> (\<exists>v \<in> set vs. numeric_cell v)) \<and>
   ((\<exists>v \<in> set vs. numeric_cell v) \<longrightarrow> mode (calculateColumnStatistics eng vs) = None) \<and>
   (\<not> (\<exists>v \<in> set vs. numeric_cell v) \<and> nonNull vs \<noteq> [] \<longrightarrow>
      mode (calculateColumnStatistics eng vs) \<noteq> None \<and>
      no_numeric_field (calculateColumnStatistics eng vs)) \<and>
   (nonNull vs = [] \<longrightarrow>
      mode (calculateColumnStatistics eng vs) = None \<and>
      no_numeric_field (calculateColumnStatistics eng vs)) \<and>
   averageLength (calculateColumnStatistics eng vs) = None \<and>
   count (calculateColumnStatistics eng vs) = length vs \<and>
   nullCount (calculateColumnStatistics eng vs) = length vs - length (nonNull vs) \<and>
   uniqueCount (calculateColumnStatistics eng vs) = card (set (nonNull vs)) \<and>
   (numeric_branch (calculateColumnStatistics_client eng vs ct) \<longleftrightarrow>
      ct = ''number'' \<and> (\<exists>v \<in> set vs. numeric_cell_stripped v)) \<and>
   (ct = ''text'' \<longrightarrow>
      mode (calculateColumnStatistics_client eng vs ct) \<noteq> None \<and>
      averageLength (calculateColumnStatistics_client eng vs ct) \<noteq> None \<and>
      no_numeric_field (calculateColumnStatistics_client eng vs ct)) \<and>
   (ct \<noteq> ''text'' \<and> \<not> (ct = ''number'' \<and> (\<exists>v \<in> set vs. numeric_cell_stripped v)) \<longrightarrow>
      calculateColumnStatistics_client eng vs ct = baseStats vs)"
  using server_branches [of eng vs] client_branches [of eng vs ct] server_no_average [of eng vs]
  by blast

theorem C2_branch_selection_witness:
  "(\<exists>v \<in> set minority_numeric. numeric_cell v) \<and>
   numeric_branch (calculateColumnStatistics reference_engine minority_numeric) \<and>
   mode (calculateColumnStatistics reference_engine minority_numeric) = None \<and>
   \<not> (\<exists>v \<in> set [JStr ''a'']. numeric_cell v) \<and> nonNull [JStr ''a''] \<noteq> [] \<and>
   mode (calculateColumnStatistics reference_engine [JStr ''a'']) \<noteq> None \<and>
   nonNull [JNull] = [] \<and> no_numeric_field (calculateColumnStatistics reference_engine [JNull]) \<and>
   mode (calculateColumnStatistics reference_engine [JNull]) = None \<and>
   mode (calculateColumnStatistics_client reference_engine [JStr ''a''] ''text'') \<noteq> None \<and>
   calculateColumnStatistics_client reference_engine [JStr ''a''] ''date'' = baseStats [JStr ''a'']"
proof -
  have h1: "\<exists>v \<in> set minority_numeric. numeric_cell v"
    by (simp add: minority_numeric_def parseFloat_defs)
  have h2: "\<not> (\<exists>v \<in> set [JStr ''a'']. numeric_cell v) \<and> nonNull [JStr ''a''] \<noteq> []"
    by (simp add: nonNull_def parseFloat_defs)
  have h3: "nonNull [JNull] = []"
    by (simp add: nonNull_def)
  have h4: "''date'' \<noteq> ''text'' \<and> \<not> (''date'' = ''number'' \<and> (\<exists>v \<in> set [JStr ''a'']. numeric_cell_stripped v))"
    by simp
  note a = C2_branch_selection [of reference_engine minority_numeric "''text''"]
  note b = C2_branch_selection [of reference_engine "[JStr ''a'']" "''text''"]
  note c = C2_branch_selection [of reference_engine "[JNull]" "''text''"]
  note d = C2_branch_selection [of reference_engine "[JStr ''a'']" "''date''"]
  from a h1 have r1: "numeric_branch (calculateColumnStatistics reference_engine minority_numeric) \<and>
      mode (calculateColumnStatistics reference_engine minority_numeric) = None" by blast
  from b h2 have r2: "mode (calculateColumnStatistics reference_engine [JStr ''a'']) \<noteq> None" by blast
  from c h3 have r3: "no_numeric_field (calculateColumnStatistics reference_engine [JNull]) \<and>
      mode (calculateColumnStatistics reference_engine [JNull]) = None" by blast
  from b have r4: "mode (calculateColumnStatistics_client reference_engine [JStr ''a''] ''text'') \<noteq> None"
    by blast
  from d h4 have r5: "calculateColumnStatistics_client reference_engine [JStr ''a''] ''date'' = baseStats [JStr ''a'']"
    by blast
  from h1 h2 h3 r1 r2 r3 r4 r5 show ?thesis by blast
qed

section \<open>C9: the text branch\<close>

















section \<open>C4: failures\<close>

lemma missing_count:
  "length (map (\<lambda>r. cell r h) rows) - length (nonNull (map (\<lambda>r. cell r h) rows)) =
   missing_in_column rows h"
proof -
  have "length (filter (\<lambda>r. \<not> blank_cell (cell r h)) rows) + missing_in_column rows h = length rows"
    unfolding missing_in_column_def
    using sum_length_filter_compl [of "\<lambda>r. \<not> blank_cell (cell r h)" rows] by simp
  moreover have "length (nonNull (map (\<lambda>r. cell r h) rows)) =
      length (filter (\<lambda>r. \<not> blank_cell (cell r h)) rows)"
    by (simp add: nonNull_def filter_map o_def blank_cell_def)
  ultimately show ?thesis by simp
qed

lemma summary_fold:
  "\<exists>nc' tc'. foldl (summary_step rows) (nc, tc, m) hs =
      (nc', tc', m + sum_list (map (missing_in_column rows) hs)) \<and>
      nc' + tc' = nc + tc + length hs"
proof (induction hs arbitrary: nc tc m)
  case Nil
  show ?case by simp
next
  case (Cons h hs)
  have step: "summary_step rows (nc, tc, m) h =
      (if real (length (numericValues (map (\<lambda>r. cell r h) rows))) >
          real (length (nonNull (map (\<lambda>r. cell r h) rows))) * 0.5
       then (nc + 1, tc, m + missing_in_column rows h)
       else (nc, tc + 1, m + missing_in_column rows h))"
    unfolding summary_step_def Let_def missing_count [symmetric] by simp
  show ?case
  proof (cases "real (length (numericValues (map (\<lambda>r. cell r h) rows))) >
          real (length (nonNull (map (\<lambda>r. cell r h) rows))) * 0.5")
    case True
    with step Cons.IH [of "nc + 1" tc "m + missing_in_column rows h"] show ?thesis
      by (auto simp: add.assoc)
  next
    case False
    with step Cons.IH [of nc "tc + 1" "m + missing_in_column rows h"] show ?thesis
      by (auto simp: add.assoc)
  qed
qed

lemma summary_fields:
  "totalRecords (calculateSummaryStats headers rows) = length rows"
  "totalColumns (calculateSummaryStats headers rows) = length headers"
  "missingValues (calculateSummaryStats headers rows) = sum_list (map (missing_in_column rows) headers)"
  "numericColumns (calculateSummaryStats headers rows) + textColumns (calculateSummaryStats headers rows) =
     length headers"
  using summary_fold [of rows 0 0 0 headers]
  by (auto simp add: calculateSummaryStats_def Let_def)

lemma absent_cell_blank: "plain_key h \<Longrightarrow> r h = None \<Longrightarrow> blank_cell (cell r h)"
  by (simp add: absent_cell blank_cell_def)

lemma member_le_sum:
  fixes f :: "'a \<Rightarrow> nat"
  shows "h \<in> set hs \<Longrightarrow> f h \<le> sum_list (map f hs)"
  by (induction hs) auto

lemma count_list_replicate_same: "count_list (replicate n a) a = n"
  by (induction n) simp_all

lemma absent_cell_counted:
  assumes "r \<in> set rows" and "h \<in> set headers" and "plain_key h" and "r h = None"
  shows "0 < missingValues (calculateSummaryStats headers rows)"
proof -
  from assms(1,3,4) have "r \<in> set (filter (\<lambda>r. blank_cell (cell r h)) rows)"
    by (simp add: absent_cell_blank)
  then have "0 < missing_in_column rows h"
    unfolding missing_in_column_def by (rule length_pos_if_in_set)
  moreover have "missing_in_column rows h \<le> sum_list (map (missing_in_column rows) headers)"
    using assms(2) by (rule member_le_sum)
  ultimately show ?thesis by (simp add: summary_fields)
qed

lemma absent_column_cell:
  "absent_column data c \<Longrightarrow> r \<in> set data \<Longrightarrow> cell r c = JUndefined"
  by (simp add: absent_column_def list_all_iff absent_cell)

lemma bar_unknown_x:
  assumes "absent_column data xc" and "p \<in> set (prepareBarChartData eng data xc yc limit)"
  shows "\<exists>i<length data. pt_name p = ''Item '' @ nat_to_string (i + 1)"
proof -
  let ?s = "slice0 (or_default 20 limit) data"
  from assms(2) obtain i where i: "i < length ?s" and p: "p = bar_point eng xc yc i (?s ! i)"
    by (auto simp: prepareBarChartData_eq)
  from i have len: "i < length data" by (simp add: slice0_def split: if_splits)
  from i have "?s ! i = data ! i" by (rule slice0_nth)
  moreover from len have "data ! i \<in> set data" by simp
  ultimately have "cell (?s ! i) xc = JUndefined"
    using absent_column_cell [OF assms(1)] by simp
  with p have "pt_name p = ''Item '' @ nat_to_string (i + 1)"
    by (simp add: bar_point_def js_or_def)
  with len show ?thesis by blast
qed

lemma distinct_singleton:
  assumes "distinct xs" and "set xs = {a}"
  shows "xs = [a]"
proof -
  from assms have "length xs = 1" using distinct_card [of xs] by simp
  then obtain b where "xs = [b]" by (cases xs) auto
  with assms(2) show ?thesis by simp
qed

lemma pie_unknown:
  assumes "absent_column data c" and "data \<noteq> []" and "1 \<le> or_default 8 limit"
  shows "preparePieChartData eng data c limit = [pie_point ''Unknown'' (length data)]"
proof -
  let ?ks = "map (group_name eng c) data"
  have ks: "?ks = replicate (length data) ''Unknown''"
    using absent_column_cell [OF assms(1)]
    by (intro replicate_eqI) (auto simp: group_name_def)
  have plain: "list_all plain_key ?ks"
    unfolding ks by (simp add: list_all_iff plain_key_def plain_letters)
  from assms(2) have "set ?ks = {''Unknown''}" unfolding ks by auto
  then have "first_seen ?ks = [''Unknown'']"
    by (intro distinct_singleton) simp_all
  then have "pie_ranking ?ks = [''Unknown'']"
    by (simp add: pie_ranking_def key_order_def array_index_def is_digit_def)
  moreover have "slice0 (or_default 8 limit) [''Unknown''] = [''Unknown'']"
    using assms(3) by (simp add: slice0_def)
  moreover have "count_list ?ks ''Unknown'' = length data"
    unfolding ks by (rule count_list_replicate_same)
  ultimately show ?thesis
    by (simp add: preparePieChartData_eq [OF plain])
qed

lemma unknown_column_fraction:
  assumes "absent_column data c"
  shows "numeric_fraction (column data c) = 0" and "card (set (column data c)) \<le> 1"
proof -
  have col: "column data c = replicate (length data) JUndefined"
    unfolding column_def using absent_column_cell [OF assms]
    by (intro replicate_eqI) auto
  show "numeric_fraction (column data c) = 0"
    unfolding col numeric_fraction_def by simp
  have "set (column data c) \<subseteq> {JUndefined}" unfolding col by auto
  then have "card (set (column data c)) \<le> card {JUndefined}"
    by (intro card_mono) auto
  then show "card (set (column data c)) \<le> 1" by simp
qed

lemma selector_unknown_x:
  assumes "absent_column data xc"
  shows "getOptimalChartType data xc yc = Bar"
  using unknown_column_fraction [OF assms] by (simp add: getOptimalChartType_cascade)

lemma selector_unknown_y:
  assumes "absent_column data yc"
  shows "getOptimalChartType data xc yc \<noteq> Scatter" and "getOptimalChartType data xc yc \<noteq> Line"
  using unknown_column_fraction(1) [OF assms] by (simp_all add: getOptimalChartType_cascade)

lemma one_row_summary:
  "calculateSummaryStats [''a''] [Map.empty] =
     \<lparr>totalRecords = 1, totalColumns = 1, numericColumns = 0, textColumns = 1,
      missingValues = 1, dataQuality = Fin 0\<rparr>"
  by (simp add: calculateSummaryStats_def summary_step_def cell_def proto_members_def nonNull_def
      numericValues_def)

lemma one_row_bar:
  "prepareBarChartData reference_engine one_row ''zzz'' ''a'' None =
     [\<lparr>pt_name = ''Item 1'', pt_value = JNum (Fin 1), pt_x = None, pt_y = None\<rparr>]"
  by (simp add: prepareBarChartData_def one_row_def or_default_def slice0_def enumerate_eq_zip
      upt_rec cell_def proto_members_def js_or_def num_or_def parseFloat_defs nat_to_string.simps
      digit_char_def isNaN_def)

text \<open>
  On a row that lacks the declared header \<open>a\<close> the summary is returned, and a bar chart
  over a column that no header names is returned as well: no failure is signalled where
  the specification wants one.
\<close>

theorem C4_errors_counterexample:
  "structurally_invalid [''a''] [Map.empty] \<and>
   summary_as_claimed [''a''] [Map.empty] = Inl StructuralInputError \<and>
   summary_outcome [''a''] [Map.empty] =
     Inr \<lparr>totalRecords = 1, totalColumns = 1, numericColumns = 0, textColumns = 1,
          missingValues = 1, dataQuality = Fin 0\<rparr> \<and>
   summary_outcome [''a''] [Map.empty] \<noteq> summary_as_claimed [''a''] [Map.empty] \<and>
   unknown_column [''a''] ''zzz'' \<and>
   bar_as_claimed reference_engine [''a''] one_row ''zzz'' ''a'' None = Inl UnknownColumnError \<and>
   bar_outcome reference_engine one_row ''zzz'' ''a'' None =
     Inr [\<lparr>pt_name = ''Item 1'', pt_value = JNum (Fin 1), pt_x = None, pt_y = None\<rparr>] \<and>
   bar_outcome reference_engine one_row ''zzz'' ''a'' None \<noteq>
     bar_as_claimed reference_engine [''a''] one_row ''zzz'' ''a'' None"
  by (simp add: structurally_invalid_def unknown_column_def summary_outcome_def bar_outcome_def
      summary_as_claimed_def bar_as_claimed_def one_row_summary one_row_bar)

text \<open>
  C4 (as amended). The code knows neither failure of the specification: on structurally
  invalid input and on unknown columns it returns a result. The summary of any headers and
  rows has the number of rows for totalRecords, the number of headers for totalColumns,
  numeric and text columns that add up to the number of headers, and for missingValues
  the number of null, undefined and empty cells under the headers, where a cell that a row
  lacks under a declared header reads as undefined and is counted (unless the header is
  the name of a member of \<^verbatim>\<open>Object.prototype\<close>). For a column that no row has and that is
  no such name: as the x column of the bar projection it names every point \<open>Item\<close> with an
  index plus one; as the column of the pie projection it gives, for rows that are not none
  and a limit of at least 1, the one group \<open>Unknown\<close> of all rows; as the x column of the
  choice of a chart type it gives bar, and as the y column never scatter nor line.
\<close>

theorem C4_results_on_invalid_input:
  "totalRecords (calculateSummaryStats headers rows) = length rows \<and>
   totalColumns (calculateSummaryStats headers rows) = length headers \<and>
   numericColumns (calculateSummaryStats headers rows) + textColumns (calculateSummaryStats headers rows) =
     length headers \<and>
   missingValues (calculateSummaryStats headers rows) = sum_list (map (missing_in_column rows) headers) \<and>
   (r \<in> set rows \<and> h \<in> set headers \<and> plain_key h \<and> r h = None \<longrightarrow>
      blank_cell (cell r h) \<and> 0 < missingValues (calculateSummaryStats headers rows)) \<and>
   (absent_column data xc \<and> p \<in> set (prepareBarChartData eng data xc yc limit) \<longrightarrow>
      (\<exists>i<length data. pt_name p = ''Item '' @ nat_to_string (i + 1))) \<and>
   (absent_column data xc \<and> data \<noteq> [] \<and> 1 \<le> or_default 8 limit \<longrightarrow>
      preparePieChartData eng data xc limit = [pie_point ''Unknown'' (length data)]) \<and>
   (absent_column data xc \<longrightarrow> getOptimalChartType data xc yc = Bar) \<and>
   (absent_column data yc \<longrightarrow>
      getOptimalChartType data xc yc \<noteq> Scatter \<and> getOptimalChartType data xc yc \<noteq> Line)"
  using summary_fields [of headers rows] absent_cell_blank [of h r]
    absent_cell_counted [of r rows h headers] bar_unknown_x [of data xc p eng yc limit]
    pie_unknown [of data xc limit eng] selector_unknown_x [of data xc yc]
    selector_unknown_y [of data yc xc]
  by blast

lemma plain_zzz: "plain_key ''a''" "plain_key ''zzz''"
  by (simp_all add: plain_key_def proto_members_def)

theorem C4_results_witness:
  "Map.empty \<in> set [Map.empty :: row] \<and> ''a'' \<in> set [''a''] \<and> plain_key ''a'' \<and>
   (Map.empty :: row) ''a'' = None \<and> blank_cell (cell Map.empty ''a'') \<and>
   0 < missingValues (calculateSummaryStats [''a''] [Map.empty]) \<and>
   absent_column one_row ''zzz'' \<and>
   \<lparr>pt_name = ''Item 1'', pt_value = JNum (Fin 1), pt_x = None, pt_y = None\<rparr>
     \<in> set (prepareBarChartData reference_engine one_row ''zzz'' ''a'' None) \<and>
   one_row \<noteq> [] \<and> 1 \<le> or_default 8 None \<and>
   preparePieChartData reference_engine one_row ''zzz'' None = [pie_point ''Unknown'' 1] \<and>
   getOptimalChartType one_row ''zzz'' ''a'' = Bar \<and>
   getOptimalChartType one_row ''a'' ''zzz'' \<noteq> Scatter \<and>
   getOptimalChartType one_row ''a'' ''zzz'' \<noteq> Line"
proof -
  have h1: "Map.empty \<in> set [Map.empty :: row] \<and> ''a'' \<in> set [''a''] \<and> plain_key ''a'' \<and>
      (Map.empty :: row) ''a'' = None"
    by (simp add: plain_zzz)
  have h2: "absent_column one_row ''zzz''"
    by (simp add: absent_column_def plain_zzz one_row_def)
  have h3: "\<lparr>pt_name = ''Item 1'', pt_value = JNum (Fin 1), pt_x = None, pt_y = None\<rparr>
      \<in> set (prepareBarChartData reference_engine one_row ''zzz'' ''a'' None)"
    by (simp add: one_row_bar)
  have h4: "one_row \<noteq> [] \<and> 1 \<le> or_default 8 None"
    by (simp add: one_row_def or_default_def)
  note a = C4_results_on_invalid_input [of "[''a'']" "[Map.empty]" Map.empty "''a''" one_row "''zzz''"
      "\<lparr>pt_name = ''Item 1'', pt_value = JNum (Fin 1), pt_x = None, pt_y = None\<rparr>"
      reference_engine "''a''" None]
  note b = C4_results_on_invalid_input [of "[''a'']" "[Map.empty]" Map.empty "''a''" one_row "''a''"
      "\<lparr>pt_name = ''Item 1'', pt_value = JNum (Fin 1), pt_x = None, pt_y = None\<rparr>"
      reference_engine "''zzz''" None]
  from a h1 have r1: "blank_cell (cell Map.empty ''a'') \<and>
      0 < missingValues (calculateSummaryStats [''a''] [Map.empty])" by blast
  from a h2 h4 have "preparePieChartData reference_engine one_row ''zzz'' None =
      [pie_point ''Unknown'' (length one_row)]" by blast
  then have r2: "preparePieChartData reference_engine one_row ''zzz'' None = [pie_point ''Unknown'' 1]"
    by (simp add: one_row_def)
  from a h2 have r3: "getOptimalChartType one_row ''zzz'' ''a'' = Bar" by blast
  from b h2 have r4: "getOptimalChartType one_row ''a'' ''zzz'' \<noteq> Scatter \<and>
      getOptimalChartType one_row ''a'' ''zzz'' \<noteq> Line" by blast
  from h1 h2 h3 h4 r1 r2 r3 r4 show ?thesis by blast
qed

section \<open>C8: the data quality\<close>

lemma dataQuality_no_rows: "dataQuality (calculateSummaryStats headers []) = Fin 100"
  by (simp add: calculateSummaryStats_def split: prod.splits)

lemma gap_rows_column:
  "map (\<lambda>r. cell r ''a'') gap_rows = replicate 23 (JNum (Fin 1)) @ replicate 17 JNull"
  by (simp add: gap_rows_def cell_def)

lemma double_23_40: "to_double (23 / 40) = 5179139571476070 * pow2 (- 53)"
  using to_double_eval [of "23 / 40" "- 1" 5179139571476070]
  by (simp add: pow2_def round_half_even_def)

lemma double_23_40_100:
  "to_double (5179139571476070 * pow2 (- 53) * 100) = 8092405580431359 * pow2 (- 47)"
  using to_double_eval [of "5179139571476070 * pow2 (- 53) * 100" 5 8092405580431359]
  by (simp add: pow2_def round_half_even_def)

text \<open>
  Of forty cells twenty-three are present: the exact quality is 57.5, which would round
  to 58; the quotient in doubles is below 0.575, and the code answers 57.
\<close>

lemma dataQuality_rounding:
  "dataQuality (calculateSummaryStats [''a''] gap_rows) = Fin 57"
proof -
  have "Math_round (rounded (jmul (rounded (jdiv (Fin 23) (Fin 40))) (Fin 100))) = Fin 57"
    using quality_eval [OF double_23_40 double_23_40_100] by (simp add: pow2_def)
  then show ?thesis
    by (simp add: calculateSummaryStats_def summary_step_def gap_rows_column nonNull_def
        numericValues_def Let_def)
      (simp add: gap_rows_def)
qed

text \<open>
  C8. The specification wants dataQuality to be an integer between 0 and 100 for every
  input, and 100 when no value is missing. The code guards the division by the number of
  rows only: with no headers and one row it divides zero by zero, no value is missing,
  and dataQuality is NaN.
\<close>

theorem C8_dataQuality_no_columns:
  "calculateSummaryStats [] [Map.empty] =
     \<lparr>totalRecords = 1, totalColumns = 0, numericColumns = 0, textColumns = 0,
      missingValues = 0, dataQuality = NaN\<rparr>"
  by (simp add: calculateSummaryStats_def signed_inf_def)

end
